theory Spec2Isabelle
  imports Complex_Main
begin

section \<open>Arrays, errors and the numpy operations the program uses\<close>

text \<open>
  The program is \<^verbatim>\<open>pyInference/mixtureOfGaussians/gmm_cavi.py\<close>. A floating-point number
  is a value of \<open>flt\<close>: a real number, plus or minus infinity, or not-a-number, with the
  arithmetic of numpy on them (a division by zero gives an infinity or not-a-number, a
  comparison with not-a-number is false, the program continues). Finite results are exact:
  rounding and overflow are not modelled, and zero has no sign. A one-dimensional array is a
  list and a two-dimensional array a list of rows. An exception is a value \<open>Inl e\<close>.
\<close>

datatype flt = Fin real | PInf | NInf | NaN

instantiation flt :: "{zero, one, plus, uminus, minus, times, inverse, abs, ord}"
begin

definition zero_flt :: flt where
  "zero_flt = Fin 0"

definition one_flt :: flt where
  "one_flt = Fin 1"

fun plus_flt :: "flt \<Rightarrow> flt \<Rightarrow> flt" where
  "plus_flt (Fin a) (Fin b) = Fin (a + b)"
| "plus_flt NaN y = NaN"
| "plus_flt x NaN = NaN"
| "plus_flt PInf NInf = NaN"
| "plus_flt NInf PInf = NaN"
| "plus_flt PInf y = PInf"
| "plus_flt x PInf = PInf"
| "plus_flt NInf y = NInf"
| "plus_flt x NInf = NInf"

fun uminus_flt :: "flt \<Rightarrow> flt" where
  "uminus_flt (Fin a) = Fin (- a)"
| "uminus_flt PInf = NInf"
| "uminus_flt NInf = PInf"
| "uminus_flt NaN = NaN"

fun minus_flt :: "flt \<Rightarrow> flt \<Rightarrow> flt" where
  "minus_flt (Fin a) (Fin b) = Fin (a - b)"
| "minus_flt NaN y = NaN"
| "minus_flt x NaN = NaN"
| "minus_flt PInf PInf = NaN"
| "minus_flt NInf NInf = NaN"
| "minus_flt PInf y = PInf"
| "minus_flt x NInf = PInf"
| "minus_flt NInf y = NInf"
| "minus_flt x PInf = NInf"

fun times_flt :: "flt \<Rightarrow> flt \<Rightarrow> flt" where
  "times_flt (Fin a) (Fin b) = Fin (a * b)"
| "times_flt NaN y = NaN"
| "times_flt x NaN = NaN"
| "times_flt (Fin a) PInf = (if 0 < a then PInf else if a < 0 then NInf else NaN)"
| "times_flt (Fin a) NInf = (if 0 < a then NInf else if a < 0 then PInf else NaN)"
| "times_flt PInf (Fin b) = (if 0 < b then PInf else if b < 0 then NInf else NaN)"
| "times_flt NInf (Fin b) = (if 0 < b then NInf else if b < 0 then PInf else NaN)"
| "times_flt PInf PInf = PInf"
| "times_flt PInf NInf = NInf"
| "times_flt NInf PInf = NInf"
| "times_flt NInf NInf = PInf"

fun divide_flt :: "flt \<Rightarrow> flt \<Rightarrow> flt" where
  "divide_flt (Fin a) (Fin b) =
     (if b \<noteq> 0 then Fin (a / b)
      else if 0 < a then PInf else if a < 0 then NInf else NaN)"
| "divide_flt NaN y = NaN"
| "divide_flt x NaN = NaN"
| "divide_flt (Fin a) PInf = Fin 0"
| "divide_flt (Fin a) NInf = Fin 0"
| "divide_flt PInf (Fin b) = (if 0 \<le> b then PInf else NInf)"
| "divide_flt NInf (Fin b) = (if 0 \<le> b then NInf else PInf)"
| "divide_flt PInf y = NaN"
| "divide_flt NInf y = NaN"

fun inverse_flt :: "flt \<Rightarrow> flt" where
  "inverse_flt (Fin a) = (if a \<noteq> 0 then Fin (1 / a) else PInf)"
| "inverse_flt PInf = Fin 0"
| "inverse_flt NInf = Fin 0"
| "inverse_flt NaN = NaN"

fun abs_flt :: "flt \<Rightarrow> flt" where
  "abs_flt (Fin a) = Fin \<bar>a\<bar>"
| "abs_flt PInf = PInf"
| "abs_flt NInf = PInf"
| "abs_flt NaN = NaN"

fun less_flt :: "flt \<Rightarrow> flt \<Rightarrow> bool" where
  "less_flt (Fin a) (Fin b) = (a < b)"
| "less_flt NaN y = False"
| "less_flt x NaN = False"
| "less_flt x NInf = False"
| "less_flt NInf y = True"
| "less_flt PInf y = False"
| "less_flt x PInf = True"

fun less_eq_flt :: "flt \<Rightarrow> flt \<Rightarrow> bool" where
  "less_eq_flt (Fin a) (Fin b) = (a \<le> b)"
| "less_eq_flt NaN y = False"
| "less_eq_flt x NaN = False"
| "less_eq_flt NInf y = True"
| "less_eq_flt x PInf = True"
| "less_eq_flt x NInf = False"
| "less_eq_flt PInf y = False"

instance ..

end

text \<open>
  Addition is associative and commutative on these values (the not-a-number absorbs
  everything), so the sum of a list does not depend on how it is bracketed.
\<close>

instance flt :: comm_monoid_add
proof
  fix x y z :: flt
  show "0 + x = x"
    by (cases x) (simp_all add: zero_flt_def)
  show "x + y = y + x"
    by (cases x; cases y) simp_all
  show "x + y + z = x + (y + z)"
    by (cases x; cases y; cases z) simp_all
qed

instance flt :: numeral ..

fun np_exp :: "flt \<Rightarrow> flt" where
  \<comment> \<open>\<^verbatim>\<open>np.exp\<close>\<close>
  "np_exp (Fin a) = Fin (exp a)"
| "np_exp PInf = PInf"
| "np_exp NInf = Fin 0"
| "np_exp NaN = NaN"

fun np_log :: "flt \<Rightarrow> flt" where
  \<comment> \<open>\<^verbatim>\<open>np.log\<close>: minus infinity at 0 and not-a-number below, with a warning only\<close>
  "np_log (Fin a) = (if 0 < a then Fin (ln a) else if a = 0 then NInf else NaN)"
| "np_log PInf = PInf"
| "np_log NInf = NaN"
| "np_log NaN = NaN"

definition fmax :: "flt \<Rightarrow> flt \<Rightarrow> flt" where
  "fmax a b = (if a = NaN \<or> b = NaN then NaN else if a < b then b else a)"

definition np_max :: "flt list \<Rightarrow> flt" where
  \<comment> \<open>\<^verbatim>\<open>np.max\<close> of a non-empty array: not-a-number when one entry is\<close>
  "np_max x = foldl fmax (hd x) (tl x)"

datatype np_error = ValueError | ZeroDivisionError | LinAlgError | IndexError

type_synonym vec = "flt list"
type_synonym mat = "flt list list"

definition bindE :: "np_error + 'a \<Rightarrow> ('a \<Rightarrow> np_error + 'b) \<Rightarrow> np_error + 'b" where
  "bindE m f = (case m of Inl e \<Rightarrow> Inl e | Inr x \<Rightarrow> f x)"

fun foldE :: "('a \<Rightarrow> 's \<Rightarrow> np_error + 's) \<Rightarrow> 'a list \<Rightarrow> 's \<Rightarrow> np_error + 's" where
  "foldE f [] s = Inr s"
| "foldE f (x # xs) s = bindE (f x s) (foldE f xs)"

definition getitem :: "'a list \<Rightarrow> nat \<Rightarrow> np_error + 'a" where
  "getitem xs i = (if i < length xs then Inr (xs ! i) else Inl IndexError)"

definition setitem :: "'a list \<Rightarrow> nat \<Rightarrow> 'a \<Rightarrow> np_error + 'a list" where
  "setitem xs i v = (if i < length xs then Inr (xs[i := v]) else Inl IndexError)"

definition ncols :: "mat \<Rightarrow> nat" where
  "ncols A = (case A of [] \<Rightarrow> 0 | r # _ \<Rightarrow> length r)"

definition shape1 :: "nat \<Rightarrow> mat \<Rightarrow> nat" where
  \<comment> \<open>the second extent of the responsibility matrix: a list of rows does not record it
     when there are no rows, and \<^verbatim>\<open>main\<close> creates the matrix with shape \<open>(N, K)\<close>\<close>
  "shape1 K A = (case A of [] \<Rightarrow> K | r # _ \<Rightarrow> length r)"

definition column :: "nat \<Rightarrow> mat \<Rightarrow> nat \<Rightarrow> np_error + vec" where
  \<comment> \<open>\<^verbatim>\<open>A[:, k]\<close>\<close>
  "column K A k = (if k < shape1 K A then Inr (map (\<lambda>r. r ! k) A) else Inl IndexError)"

definition float32_eps :: real where
  \<comment> \<open>\<^verbatim>\<open>np.finfo(np.float32).eps\<close>\<close>
  "float32_eps = 1 / 2 ^ 23"

text \<open>Broadcasting: two extents are compatible when they are equal or one of them is 1.\<close>

definition compat :: "nat \<Rightarrow> nat \<Rightarrow> bool" where
  "compat a b = (a = b \<or> a = 1 \<or> b = 1)"

definition bdim :: "nat \<Rightarrow> nat \<Rightarrow> nat" where
  "bdim a b = (if a = 1 then b else a)"

definition stretch1 :: "nat \<Rightarrow> 'a list \<Rightarrow> 'a list" where
  "stretch1 n v = (if length v = n then v else replicate n (hd v))"

definition stretch2 :: "nat \<Rightarrow> nat \<Rightarrow> mat \<Rightarrow> mat" where
  "stretch2 r c A = map (stretch1 c) (stretch1 r A)"

definition np_binop1 :: "(flt \<Rightarrow> flt \<Rightarrow> flt) \<Rightarrow> vec \<Rightarrow> vec \<Rightarrow> np_error + vec" where
  \<comment> \<open>\<^verbatim>\<open>a + b\<close>, \<^verbatim>\<open>a * b\<close> on one-dimensional arrays\<close>
  "np_binop1 f a b =
     (if compat (length a) (length b)
      then (let n = bdim (length a) (length b)
            in Inr (map2 f (stretch1 n a) (stretch1 n b)))
      else Inl ValueError)"

definition np_iadd1 :: "vec \<Rightarrow> vec \<Rightarrow> np_error + vec" where
  \<comment> \<open>\<^verbatim>\<open>a += b\<close>: the result keeps the shape of \<open>a\<close>\<close>
  "np_iadd1 a b =
     (if length b = length a \<or> length b = 1
      then Inr (map2 (+) a (stretch1 (length a) b))
      else Inl ValueError)"

definition np_assign1 :: "nat \<Rightarrow> vec \<Rightarrow> np_error + vec" where
  \<comment> \<open>\<^verbatim>\<open>target[k, :] = b\<close> for a target row of extent \<open>n\<close>\<close>
  "np_assign1 n b =
     (if length b = n \<or> length b = 1 then Inr (stretch1 n b) else Inl ValueError)"

definition np_binop2 :: "(flt \<Rightarrow> flt \<Rightarrow> flt) \<Rightarrow> mat \<Rightarrow> mat \<Rightarrow> np_error + mat" where
  "np_binop2 f A B =
     (if compat (length A) (length B) \<and> compat (ncols A) (ncols B)
      then (let r = bdim (length A) (length B); c = bdim (ncols A) (ncols B)
            in Inr (map2 (map2 f) (stretch2 r c A) (stretch2 r c B)))
      else Inl ValueError)"

definition np_iadd2 :: "mat \<Rightarrow> mat \<Rightarrow> np_error + mat" where
  "np_iadd2 A B =
     (if (length B = length A \<or> length B = 1) \<and> (ncols B = ncols A \<or> ncols B = 1)
      then Inr (map2 (map2 (+)) A (stretch2 (length A) (ncols A) B))
      else Inl ValueError)"

definition np_assign2 :: "nat \<Rightarrow> nat \<Rightarrow> mat \<Rightarrow> np_error + mat" where
  \<comment> \<open>\<^verbatim>\<open>target[k, :, :] = B\<close> for a target block of shape \<open>(r, c)\<close>\<close>
  "np_assign2 r c B =
     (if (length B = r \<or> length B = 1) \<and> (ncols B = c \<or> ncols B = 1)
      then Inr (stretch2 r c B)
      else Inl ValueError)"

definition scale1 :: "flt \<Rightarrow> vec \<Rightarrow> vec" where
  "scale1 c v = map (\<lambda>x. c * x) v"

definition scale2 :: "flt \<Rightarrow> mat \<Rightarrow> mat" where
  "scale2 c A = map (scale1 c) A"

definition outer :: "vec \<Rightarrow> vec \<Rightarrow> mat" where
  \<comment> \<open>\<^verbatim>\<open>np.outer(a, b)\<close>\<close>
  "outer a b = map (\<lambda>x. map (\<lambda>y. x * y) b) a"

definition dot_vv :: "vec \<Rightarrow> vec \<Rightarrow> np_error + flt" where
  "dot_vv a b =
     (if length a = length b then Inr (\<Sum>i<length a. a ! i * b ! i) else Inl ValueError)"

definition dot_mv :: "mat \<Rightarrow> vec \<Rightarrow> np_error + vec" where
  "dot_mv A x =
     (if ncols A = length x
      then Inr (map (\<lambda>r. \<Sum>j<length x. r ! j * x ! j) A)
      else Inl ValueError)"

definition dot_vm :: "vec \<Rightarrow> mat \<Rightarrow> np_error + vec" where
  "dot_vm x A =
     (if length x = length A
      then Inr (map (\<lambda>j. \<Sum>i<length x. x ! i * A ! i ! j) [0..<ncols A])
      else Inl ValueError)"

definition dot_mm :: "mat \<Rightarrow> mat \<Rightarrow> np_error + mat" where
  "dot_mm A B =
     (if ncols A = length B
      then Inr (map (\<lambda>r. map (\<lambda>j. \<Sum>i<length B. r ! i * B ! i ! j) [0..<ncols B]) A)
      else Inl ValueError)"

definition transp :: "mat \<Rightarrow> mat" where
  \<comment> \<open>\<^verbatim>\<open>A.T\<close> on a two-dimensional array\<close>
  "transp A = map (\<lambda>j. map (\<lambda>r. r ! j) A) [0..<ncols A]"

definition trace :: "mat \<Rightarrow> flt" where
  \<comment> \<open>\<^verbatim>\<open>np.trace(A)\<close>: the sum of the main diagonal\<close>
  "trace A = (\<Sum>i<min (length A) (ncols A). A ! i ! i)"

text \<open>
  \<^verbatim>\<open>numpy.linalg.det\<close> and \<^verbatim>\<open>numpy.linalg.inv\<close>, by expansion along the first row and
  by the adjugate. Both raise \<open>LinAlgError\<close> on an array that is not square, and the inverse
  on a singular one (determinant 0). What LAPACK returns on a matrix with an infinite or
  not-a-number entry is taken to be what these formulas give.
\<close>

definition drop_nth :: "nat \<Rightarrow> 'a list \<Rightarrow> 'a list" where
  "drop_nth j xs = take j xs @ drop (Suc j) xs"

definition minor :: "nat \<Rightarrow> nat \<Rightarrow> mat \<Rightarrow> mat" where
  "minor i j A = map (drop_nth j) (drop_nth i A)"

primrec det_n :: "nat \<Rightarrow> mat \<Rightarrow> flt" where
  "det_n 0 A = 1"
| "det_n (Suc n) A = (\<Sum>j<Suc n. Fin ((- 1) ^ j) * A ! 0 ! j * det_n n (minor 0 j A))"

definition is_square :: "mat \<Rightarrow> bool" where
  "is_square A = (\<forall>r \<in> set A. length r = length A)"

definition det :: "mat \<Rightarrow> np_error + flt" where
  "det A = (if is_square A then Inr (det_n (length A) A) else Inl LinAlgError)"

definition inv_np :: "mat \<Rightarrow> np_error + mat" where
  "inv_np A =
     (if \<not> is_square A then Inl LinAlgError
      else (let n = length A; d = det_n n A
            in if d = 0 then Inl LinAlgError
               else Inr (map (\<lambda>i. map (\<lambda>j. Fin ((- 1) ^ (i + j)) * det_n (n - 1) (minor j i A) / d)
                                    [0..<n]) [0..<n])))"

section \<open>The update equations\<close>

definition dirichlet_expectation :: "(flt \<Rightarrow> flt) \<Rightarrow> vec \<Rightarrow> nat \<Rightarrow> np_error + flt" where
  \<comment> \<open>\<open>psi\<close> is \<^verbatim>\<open>scipy.special.psi\<close>\<close>
  "dirichlet_expectation psi alpha k =
     bindE (getitem alpha k) (\<lambda>a. Inr (psi (a + Fin float32_eps) - psi (sum_list alpha)))"

definition softmax :: "vec \<Rightarrow> np_error + vec" where
  \<comment> \<open>\<^verbatim>\<open>np.max\<close> of an empty array raises\<close>
  "softmax x =
     (if x = [] then Inl ValueError
      else (let e_x = map (\<lambda>xi. np_exp (xi - np_max x)) x
            in Inr (map (\<lambda>e. (e + Fin float32_eps) / (sum_list e_x + Fin float32_eps)) e_x)))"

definition getitem2 :: "mat \<Rightarrow> nat \<Rightarrow> nat \<Rightarrow> np_error + flt" where
  \<comment> \<open>\<^verbatim>\<open>A[n, k]\<close>\<close>
  "getitem2 A n k = bindE (getitem A n) (\<lambda>r. getitem r k)"

definition sum_axis0 :: "nat \<Rightarrow> mat \<Rightarrow> vec" where
  \<comment> \<open>\<^verbatim>\<open>np.sum(A, axis=0)\<close>\<close>
  "sum_axis0 K A = map (\<lambda>k. sum_list (map (\<lambda>r. r ! k) A)) [0..<shape1 K A]"

definition update_lambda_pi :: "nat \<Rightarrow> vec \<Rightarrow> mat \<Rightarrow> vec \<Rightarrow> np_error + vec" where
  "update_lambda_pi K lambda_pi lambda_phi alpha_o =
     foldE (\<lambda>k lp.
        bindE (getitem alpha_o k) (\<lambda>a.
        bindE (column K lambda_phi k) (\<lambda>c.
        setitem lp k (a + sum_list c))))
      [0..<K] lambda_pi"

definition update_lambda_beta :: "nat \<Rightarrow> vec \<Rightarrow> flt \<Rightarrow> vec \<Rightarrow> np_error + vec" where
  "update_lambda_beta K lambda_beta beta_o Nks =
     foldE (\<lambda>k lb. bindE (getitem Nks k) (\<lambda>nk. setitem lb k (beta_o + nk)))
      [0..<K] lambda_beta"

definition update_lambda_nu :: "nat \<Rightarrow> vec \<Rightarrow> flt \<Rightarrow> vec \<Rightarrow> np_error + vec" where
  "update_lambda_nu K lambda_nu nu_o Nks =
     foldE (\<lambda>k ln. bindE (getitem Nks k) (\<lambda>nk. setitem ln k (nu_o + nk)))
      [0..<K] lambda_nu"

definition weighted_points :: "mat \<Rightarrow> mat \<Rightarrow> nat \<Rightarrow> nat \<Rightarrow> np_error + vec" where
  \<comment> \<open>the inner loop \<^verbatim>\<open>aux = np.array([0., 0.]); for n in range(N): aux += lambda_phi[n, k] * xn[n, :]\<close>\<close>
  "weighted_points lambda_phi xn N k =
     foldE (\<lambda>n aux.
        bindE (getitem2 lambda_phi n k) (\<lambda>p.
        bindE (getitem xn n) (\<lambda>x.
        np_iadd1 aux (scale1 p x))))
      [0..<N] [0, 0]"

definition weighted_outers :: "mat \<Rightarrow> mat list \<Rightarrow> nat \<Rightarrow> nat \<Rightarrow> np_error + mat" where
  \<comment> \<open>the inner loop \<^verbatim>\<open>aux = np.array([[0., 0.], [0., 0.]]); for n in range(N): aux += lambda_phi[n, k] * xn_xnt[n]\<close>\<close>
  "weighted_outers lambda_phi xn_xnt N k =
     foldE (\<lambda>n aux.
        bindE (getitem2 lambda_phi n k) (\<lambda>p.
        bindE (getitem xn_xnt n) (\<lambda>xx.
        np_iadd2 aux (scale2 p xx))))
      [0..<N] [[0, 0], [0, 0]]"

definition np_div1 :: "vec \<Rightarrow> flt \<Rightarrow> vec" where
  \<comment> \<open>\<^verbatim>\<open>v / b\<close>\<close>
  "np_div1 v b = map (\<lambda>x. x / b) v"

definition update_lambda_m ::
  "nat \<Rightarrow> mat \<Rightarrow> mat \<Rightarrow> vec \<Rightarrow> vec \<Rightarrow> flt \<Rightarrow> mat \<Rightarrow> nat \<Rightarrow> np_error + mat" where
  "update_lambda_m K lambda_m lambda_phi lambda_beta m_o beta_o xn N =
     foldE (\<lambda>k lm.
        bindE (weighted_points lambda_phi xn N k) (\<lambda>aux.
        bindE (np_binop1 (+) (scale1 beta_o m_o) aux) (\<lambda>s.
        bindE (getitem lambda_beta k) (\<lambda>b.
        bindE (getitem lm k) (\<lambda>old.
        bindE (np_assign1 (length old) (np_div1 s b)) (\<lambda>row.
        setitem lm k row))))))
      [0..<K] lambda_m"

definition update_lambda_W ::
  "mat list \<Rightarrow> mat \<Rightarrow> vec \<Rightarrow> mat \<Rightarrow> mat \<Rightarrow> flt \<Rightarrow> vec \<Rightarrow> mat list \<Rightarrow> nat \<Rightarrow> nat
     \<Rightarrow> np_error + mat list" where
  "update_lambda_W lambda_W lambda_phi lambda_beta lambda_m W_o beta_o m_o xn_xnt K N =
     foldE (\<lambda>k lw.
        bindE (weighted_outers lambda_phi xn_xnt N k) (\<lambda>aux.
        bindE (np_binop2 (+) W_o (outer (scale1 beta_o m_o) m_o)) (\<lambda>s1.
        bindE (np_binop2 (+) s1 aux) (\<lambda>s2.
        bindE (getitem lambda_beta k) (\<lambda>b.
        bindE (getitem lambda_m k) (\<lambda>m.
        bindE (np_binop2 (-) s2 (outer (scale1 b m) m)) (\<lambda>s3.
        bindE (getitem lw k) (\<lambda>old.
        bindE (np_assign2 (length old) (ncols old) s3) (\<lambda>blk.
        setitem lw k blk)))))))))
      [0..<K] lambda_W"

text \<open>
  The score of point \<open>x\<close> for component \<open>k\<close> is accumulated by eight statements in
  \<^verbatim>\<open>update_lambda_phi\<close>; each is one definition here, in the order of the source.
\<close>

definition phi_mean_term :: "vec \<Rightarrow> vec \<Rightarrow> mat list \<Rightarrow> mat \<Rightarrow> vec \<Rightarrow> nat \<Rightarrow> np_error + flt" where
  \<comment> \<open>\<^verbatim>\<open>np.dot(lambda_m[k, :], np.dot(lambda_nu[k] * inv(lambda_W[k, :, :]), xn[n, :]))\<close>\<close>
  "phi_mean_term x lambda_nu lambda_W lambda_m lambda_beta k =
     bindE (getitem lambda_m k) (\<lambda>m.
     bindE (getitem lambda_nu k) (\<lambda>nu.
     bindE (getitem lambda_W k) (\<lambda>W.
     bindE (inv_np W) (\<lambda>Wi.
     bindE (dot_mv (scale2 nu Wi) x) (\<lambda>v.
     dot_vv m v)))))"

definition phi_prec_term :: "vec \<Rightarrow> vec \<Rightarrow> mat list \<Rightarrow> mat \<Rightarrow> vec \<Rightarrow> nat \<Rightarrow> np_error + flt" where
  \<comment> \<open>\<^verbatim>\<open>np.trace(np.dot((1 / 2.) * lambda_nu[k] * inv(lambda_W[k, :, :]), np.outer(xn[n, :], xn[n, :])))\<close>\<close>
  "phi_prec_term x lambda_nu lambda_W lambda_m lambda_beta k =
     bindE (getitem lambda_nu k) (\<lambda>nu.
     bindE (getitem lambda_W k) (\<lambda>W.
     bindE (inv_np W) (\<lambda>Wi.
     bindE (dot_mm (scale2 ((1 / 2) * nu) Wi) (outer x x)) (\<lambda>P.
     Inr (trace P)))))"

definition phi_beta_term :: "nat \<Rightarrow> vec \<Rightarrow> nat \<Rightarrow> np_error + flt" where
  \<comment> \<open>\<^verbatim>\<open>(D / 2.) * (1 / lambda_beta[k])\<close>\<close>
  "phi_beta_term D lambda_beta k =
     bindE (getitem lambda_beta k) (\<lambda>b.
     Inr (Fin (real D / 2) * (1 / b)))"

definition phi_quad_term :: "vec \<Rightarrow> mat list \<Rightarrow> mat \<Rightarrow> nat \<Rightarrow> np_error + flt" where
  \<comment> \<open>\<^verbatim>\<open>(1. / 2.) * np.dot(np.dot(lambda_nu[k] * lambda_m[k, :].T, inv(lambda_W[k, :, :])), lambda_m[k, :])\<close>\<close>
  "phi_quad_term lambda_nu lambda_W lambda_m k =
     bindE (getitem lambda_nu k) (\<lambda>nu.
     bindE (getitem lambda_m k) (\<lambda>m.
     bindE (getitem lambda_W k) (\<lambda>W.
     bindE (inv_np W) (\<lambda>Wi.
     bindE (dot_vm (scale1 nu m) Wi) (\<lambda>v.
     bindE (dot_vv v m) (\<lambda>q.
     Inr ((1 / 2) * q)))))))"

definition psi_sum :: "(flt \<Rightarrow> flt) \<Rightarrow> nat \<Rightarrow> flt \<Rightarrow> flt" where
  \<comment> \<open>\<^verbatim>\<open>np.sum(psi([((nu / 2.) + ((1 - i) / 2.)) for i in range(D)]))\<close>\<close>
  "psi_sum psi D nu = sum_list (map (\<lambda>i. psi (nu / 2 + Fin ((1 - real i) / 2))) [0..<D])"

definition phi_psi_term :: "(flt \<Rightarrow> flt) \<Rightarrow> nat \<Rightarrow> vec \<Rightarrow> nat \<Rightarrow> np_error + flt" where
  "phi_psi_term psi D lambda_nu k =
     bindE (getitem lambda_nu k) (\<lambda>nu. Inr ((1 / 2) * psi_sum psi D nu))"

definition phi_logdet_term :: "mat list \<Rightarrow> nat \<Rightarrow> np_error + flt" where
  \<comment> \<open>\<^verbatim>\<open>(1 / 2.) * np.log(det(lambda_W[k, :, :]))\<close>\<close>
  "phi_logdet_term lambda_W k =
     bindE (getitem lambda_W k) (\<lambda>W.
     bindE (det W) (\<lambda>d.
     Inr ((1 / 2) * np_log d)))"

definition phi_score ::
  "(flt \<Rightarrow> flt) \<Rightarrow> nat \<Rightarrow> vec \<Rightarrow> mat \<Rightarrow> vec \<Rightarrow> mat list \<Rightarrow> vec \<Rightarrow> vec \<Rightarrow> nat
     \<Rightarrow> np_error + flt" where
  "phi_score psi D lambda_pi lambda_m lambda_nu lambda_W lambda_beta x k =
     bindE (dirichlet_expectation psi lambda_pi k) (\<lambda>s0.
     bindE (phi_mean_term x lambda_nu lambda_W lambda_m lambda_beta k) (\<lambda>t1.
     bindE (phi_prec_term x lambda_nu lambda_W lambda_m lambda_beta k) (\<lambda>t2.
     bindE (phi_beta_term D lambda_beta k) (\<lambda>t3.
     bindE (phi_quad_term lambda_nu lambda_W lambda_m k) (\<lambda>t4.
     bindE (phi_psi_term psi D lambda_nu k) (\<lambda>t6.
     bindE (phi_logdet_term lambda_W k) (\<lambda>t7.
     Inr (s0 + t1 - t2 - t3 - t4 + Fin (real D / 2) * Fin (ln 2) + t6 - t7))))))))"

definition phi_row ::
  "(flt \<Rightarrow> flt) \<Rightarrow> nat \<Rightarrow> nat \<Rightarrow> vec \<Rightarrow> mat \<Rightarrow> vec \<Rightarrow> mat list \<Rightarrow> vec \<Rightarrow> vec \<Rightarrow> vec
     \<Rightarrow> np_error + vec" where
  \<comment> \<open>the loop over \<open>k\<close> for one point, then \<^verbatim>\<open>softmax(lambda_phi[n, :])\<close>\<close>
  "phi_row psi K D lambda_pi lambda_m lambda_nu lambda_W lambda_beta x row =
     bindE (foldE (\<lambda>k r.
               bindE (phi_score psi D lambda_pi lambda_m lambda_nu lambda_W lambda_beta x k)
                 (\<lambda>s. setitem r k s))
             [0..<K] row)
       softmax"

definition update_lambda_phi ::
  "(flt \<Rightarrow> flt) \<Rightarrow> mat \<Rightarrow> vec \<Rightarrow> mat \<Rightarrow> vec \<Rightarrow> mat list \<Rightarrow> vec \<Rightarrow> mat \<Rightarrow> nat \<Rightarrow> nat \<Rightarrow> nat
     \<Rightarrow> np_error + mat" where
  "update_lambda_phi psi lambda_phi lambda_pi lambda_m lambda_nu lambda_W lambda_beta xn N K D =
     foldE (\<lambda>n lp.
        bindE (getitem lp n) (\<lambda>row.
        bindE (getitem xn n) (\<lambda>x.
        bindE (phi_row psi K D lambda_pi lambda_m lambda_nu lambda_W lambda_beta x row) (\<lambda>row'.
        setitem lp n row'))))
      [0..<N] lambda_phi"

definition NIW_sufficient_statistics ::
  "(flt \<Rightarrow> flt) \<Rightarrow> nat \<Rightarrow> nat \<Rightarrow> vec \<Rightarrow> mat list \<Rightarrow> mat \<Rightarrow> vec
     \<Rightarrow> np_error + (vec \<times> mat \<times> flt \<times> flt)" where
  "NIW_sufficient_statistics psi k D lambda_nu lambda_W lambda_m lambda_beta =
     bindE (getitem lambda_nu k) (\<lambda>nu.
     bindE (getitem lambda_W k) (\<lambda>W.
     bindE (inv_np W) (\<lambda>Wi.
     bindE (getitem lambda_m k) (\<lambda>m.
     bindE (dot_mv (scale2 nu Wi) m) (\<lambda>s0.
     bindE (getitem lambda_beta k) (\<lambda>b.
     bindE (dot_vm m Wi) (\<lambda>v.
     bindE (dot_vv v m) (\<lambda>q.
     bindE (det W) (\<lambda>d.
     Inr (s0,
          scale2 ((- 1 / 2) * nu) Wi,
          Fin (- real D / 2) * (1 / b) - (1 / 2) * nu * q,
          Fin (real D / 2) * Fin (ln 2) + (1 / 2) * psi_sum psi D nu
            - (1 / 2) * np_log d))))))))))"

section \<open>The evidence lower bound\<close>

text \<open>
  \<open>gammaln\<close> and \<open>mgl\<close> are \<^verbatim>\<open>scipy.special.gammaln\<close> and \<^verbatim>\<open>scipy.special.multigammaln\<close>;
  the latter raises \<open>ValueError\<close> unless its first argument exceeds \<open>(d - 1) / 2\<close>.
\<close>

definition multigammaln :: "(flt \<Rightarrow> nat \<Rightarrow> flt) \<Rightarrow> flt \<Rightarrow> nat \<Rightarrow> np_error + flt" where
  "multigammaln mgl a d =
     (if a \<le> Fin ((real d - 1) / 2) then Inl ValueError else Inr (mgl a d))"

definition elbo_init ::
  "(flt \<Rightarrow> nat \<Rightarrow> flt) \<Rightarrow> nat \<Rightarrow> flt \<Rightarrow> flt \<Rightarrow> mat \<Rightarrow> nat \<Rightarrow> nat \<Rightarrow> np_error + flt \<times> flt" where
  \<comment> \<open>the values of \<^verbatim>\<open>elbop\<close> and \<^verbatim>\<open>elboq\<close> before the loop over the components\<close>
  "elbo_init mgl K nu_o beta_o W_o N D =
     bindE (multigammaln mgl (nu_o / 2) D) (\<lambda>mg.
     bindE (det W_o) (\<lambda>d.
     Inr (- (Fin ((real D * (real N + 1)) / 2) * Fin (real K) * Fin (ln (2 * pi)))
            - (Fin (real K) * nu_o * Fin (real D) * Fin (ln 2)) / 2
            - Fin (real K) * mg
            + Fin (real D / 2) * Fin (real K) * np_log \<bar>beta_o\<bar>
            + (nu_o / 2) * Fin (real K) * np_log d,
          - (Fin (real D / 2) * Fin (real K) * Fin (ln (2 * pi))))))"

definition elbo_component ::
  "(flt \<Rightarrow> flt) \<Rightarrow> (flt \<Rightarrow> flt) \<Rightarrow> (flt \<Rightarrow> nat \<Rightarrow> flt) \<Rightarrow> nat
     \<Rightarrow> mat \<Rightarrow> vec \<Rightarrow> mat \<Rightarrow> mat list \<Rightarrow> vec \<Rightarrow> vec
     \<Rightarrow> vec \<Rightarrow> flt \<Rightarrow> flt \<Rightarrow> vec \<Rightarrow> mat \<Rightarrow> mat \<Rightarrow> mat list \<Rightarrow> nat \<Rightarrow> nat \<Rightarrow> vec
     \<Rightarrow> nat \<Rightarrow> flt \<times> flt \<Rightarrow> np_error + flt \<times> flt" where
  \<comment> \<open>one pass of the loop over \<open>k\<close> in \<^verbatim>\<open>elbo\<close>\<close>
  "elbo_component psi gammaln mgl K lambda_phi lambda_pi lambda_m lambda_W lambda_beta lambda_nu
       alpha_o nu_o beta_o m_o W_o xn xn_xnt N D Nks k acc =
     (case acc of (elbop, elboq) \<Rightarrow>
     bindE (weighted_points lambda_phi xn N k) (\<lambda>aux1.
     bindE (weighted_outers lambda_phi xn_xnt N k) (\<lambda>aux2.
     bindE (getitem alpha_o k) (\<lambda>a.
     bindE (column K lambda_phi k) (\<lambda>col.
     bindE (dirichlet_expectation psi alpha_o k) (\<lambda>de.
     bindE (NIW_sufficient_statistics psi k D lambda_nu lambda_W lambda_m lambda_beta)
       (\<lambda>(s0, s1, s2, s3).
     bindE (np_binop1 (+) (scale1 beta_o m_o) aux1) (\<lambda>v.
     bindE (dot_vv v s0) (\<lambda>d0.
     bindE (np_binop2 (+) W_o (outer (scale1 beta_o m_o) m_o)) (\<lambda>M0.
     bindE (np_binop2 (+) M0 aux2) (\<lambda>M.
     bindE (dot_mm (transp M) s1) (\<lambda>P.
     bindE (getitem Nks k) (\<lambda>nk.
     bindE (getitem lambda_pi k) (\<lambda>lpk.
     bindE (dirichlet_expectation psi lambda_pi k) (\<lambda>de2.
     bindE (getitem lambda_m k) (\<lambda>m.
     bindE (getitem lambda_beta k) (\<lambda>b.
     bindE (dot_vv (scale1 b m) s0) (\<lambda>d1.
     bindE (getitem lambda_W k) (\<lambda>W.
     bindE (np_binop2 (+) W (outer (scale1 b m) m)) (\<lambda>M2.
     bindE (dot_mm (transp M2) s1) (\<lambda>P2.
     bindE (getitem lambda_nu k) (\<lambda>nu.
     bindE (multigammaln mgl (nu / 2) D) (\<lambda>mg.
     bindE (det W) (\<lambda>d.
     bindE (dot_vv (map np_log col) col) (\<lambda>ent.
     Inr (elbop - gammaln a + gammaln (sum_list alpha_o)
            + (a - 1 + sum_list col) * de
            + d0
            + trace P
            + (beta_o + nk) * s2
            + (nu_o + Fin (real D) + 2 + nk) * s3,
          elboq - gammaln lpk + gammaln (sum_list lambda_pi)
            + (lpk - 1 + sum_list col) * de2
            + d1
            + trace P2
            + b * s2
            + (nu + Fin (real D) + 2) * s3
            - ((nu * Fin (real D)) / 2) * Fin (ln 2)
            - mg
            + Fin (real D / 2) * np_log \<bar>b\<bar>
            + (nu / 2) * np_log d
            + ent))))))))))))))))))))))))))"

definition elbo ::
  "(flt \<Rightarrow> flt) \<Rightarrow> (flt \<Rightarrow> flt) \<Rightarrow> (flt \<Rightarrow> nat \<Rightarrow> flt) \<Rightarrow> nat
     \<Rightarrow> mat \<Rightarrow> vec \<Rightarrow> mat \<Rightarrow> mat list \<Rightarrow> vec \<Rightarrow> vec
     \<Rightarrow> vec \<Rightarrow> flt \<Rightarrow> flt \<Rightarrow> vec \<Rightarrow> mat \<Rightarrow> mat \<Rightarrow> mat list \<Rightarrow> nat \<Rightarrow> nat \<Rightarrow> vec
     \<Rightarrow> np_error + flt" where
  "elbo psi gammaln mgl K lambda_phi lambda_pi lambda_m lambda_W lambda_beta lambda_nu
       alpha_o nu_o beta_o m_o W_o xn xn_xnt N D Nks =
     bindE (elbo_init mgl K nu_o beta_o W_o N D) (\<lambda>acc0.
     bindE (foldE (elbo_component psi gammaln mgl K lambda_phi lambda_pi lambda_m lambda_W
                     lambda_beta lambda_nu alpha_o nu_o beta_o m_o W_o xn xn_xnt N D Nks)
              [0..<K] acc0) (\<lambda>(elbop, elboq).
     Inr (elbop - elboq)))"

section \<open>Initialisation and the iteration\<close>

definition init_kmeans ::
  "(int \<Rightarrow> mat \<Rightarrow> np_error + nat list) \<Rightarrow> mat \<Rightarrow> nat \<Rightarrow> int \<Rightarrow> np_error + mat" where
  \<comment> \<open>\<open>kmeans K xn\<close> is \<^verbatim>\<open>KMeans(K).fit(xn).predict(xn)\<close> of scikit-learn.
     \<^verbatim>\<open>0.1 / (K - 1)\<close> divides a Python float by a Python integer and raises at 0;
     \<^verbatim>\<open>np.ones((N, K))\<close> raises on a negative extent.\<close>
  "init_kmeans kmeans xn N K =
     (if K - 1 = 0 then Inl ZeroDivisionError
      else if K < 0 then Inl ValueError
      else bindE (kmeans K xn) (\<lambda>labels.
           foldE (\<lambda>(i, lab) lp.
              bindE (getitem lp i) (\<lambda>row.
              bindE (setitem row lab (Fin (9 / 10))) (\<lambda>row'.
              setitem lp i row')))
            (enumerate 0 labels)
            (replicate N (replicate (nat K) (Fin ((1 / 10) / (real_of_int K - 1)))))))"

record vstate =
  st_pi :: vec
  st_beta :: vec
  st_nu :: vec
  st_m :: mat
  st_W :: "mat list"
  st_phi :: mat

record priors =
  pr_alpha :: vec
  pr_nu :: flt
  pr_W :: mat
  pr_m :: vec
  pr_beta :: flt

definition main_priors :: "int \<Rightarrow> priors" where
  \<comment> \<open>the constants of \<^verbatim>\<open>main\<close>; \<^verbatim>\<open>[1.0] * K\<close> is empty for \<open>K \<le> 0\<close>\<close>
  "main_priors K =
     \<lparr>pr_alpha = replicate (nat K) 1, pr_nu = 3, pr_W = [[20, 30], [25, 40]],
      pr_m = [0, 0], pr_beta = 7 / 10\<rparr>"

definition sweep ::
  "(flt \<Rightarrow> flt) \<Rightarrow> nat \<Rightarrow> nat \<Rightarrow> nat \<Rightarrow> priors \<Rightarrow> mat \<Rightarrow> mat list \<Rightarrow> vstate
     \<Rightarrow> np_error + vstate \<times> vec" where
  \<comment> \<open>the six updates of one pass of the loop of \<^verbatim>\<open>main\<close>; also returns \<^verbatim>\<open>Nks\<close>\<close>
  "sweep psi K N D pr xn xn_xnt st =
     bindE (update_lambda_pi K (st_pi st) (st_phi st) (pr_alpha pr)) (\<lambda>lpi.
     (let Nks = sum_axis0 K (st_phi st) in
     bindE (update_lambda_beta K (st_beta st) (pr_beta pr) Nks) (\<lambda>lbeta.
     bindE (update_lambda_nu K (st_nu st) (pr_nu pr) Nks) (\<lambda>lnu.
     bindE (update_lambda_m K (st_m st) (st_phi st) lbeta (pr_m pr) (pr_beta pr) xn N) (\<lambda>lm.
     bindE (update_lambda_W (st_W st) (st_phi st) lbeta lm (pr_W pr) (pr_beta pr) (pr_m pr)
              xn_xnt K N) (\<lambda>lw.
     bindE (update_lambda_phi psi (st_phi st) lpi lm lnu lw lbeta xn N K D) (\<lambda>lphi.
     Inr (\<lparr>st_pi = lpi, st_beta = lbeta, st_nu = lnu, st_m = lm, st_W = lw, st_phi = lphi\<rparr>,
          Nks))))))))"

definition sweep_elbo ::
  "(flt \<Rightarrow> flt) \<Rightarrow> (flt \<Rightarrow> flt) \<Rightarrow> (flt \<Rightarrow> nat \<Rightarrow> flt) \<Rightarrow> nat \<Rightarrow> nat \<Rightarrow> nat \<Rightarrow> priors
     \<Rightarrow> mat \<Rightarrow> mat list \<Rightarrow> vstate \<Rightarrow> np_error + vstate \<times> flt" where
  \<comment> \<open>the updates followed by the evaluation of the bound on the updated state\<close>
  "sweep_elbo psi gammaln mgl K N D pr xn xn_xnt st =
     bindE (sweep psi K N D pr xn xn_xnt st) (\<lambda>(st', Nks).
     bindE (elbo psi gammaln mgl K (st_phi st') (st_pi st') (st_m st') (st_W st') (st_beta st')
              (st_nu st') (pr_alpha pr) (pr_nu pr) (pr_beta pr) (pr_m pr) (pr_W pr)
              xn xn_xnt N D Nks) (\<lambda>lb.
     Inr (st', lb)))"

definition THRESHOLD :: flt where
  "THRESHOLD = Fin (1 / 10 ^ 10)"

datatype exit_path = Break | RangeExhausted

record run_result =
  final :: vstate
  lbs :: "flt list"
  n_iters :: nat
  left_by :: exit_path

definition break_condition :: "nat \<Rightarrow> flt \<Rightarrow> flt list \<Rightarrow> np_error + bool" where
  \<comment> \<open>\<^verbatim>\<open>i > 0 and abs(lb - lbs[i - 1]) < THRESHOLD\<close>, read after \<open>lb\<close> was appended\<close>
  "break_condition i lb ls =
     (if i > 0 then bindE (getitem ls (i - 1)) (\<lambda>prev. Inr (\<bar>lb - prev\<bar> < THRESHOLD))
      else Inr False)"

function iterate ::
  "(vstate \<Rightarrow> np_error + vstate \<times> flt) \<Rightarrow> nat \<Rightarrow> nat \<Rightarrow> vstate \<Rightarrow> flt list \<Rightarrow> nat
     \<Rightarrow> np_error + run_result" where
  "iterate step max_iters i st ls n =
     (if i < max_iters
      then (case step st of
              Inl e \<Rightarrow> Inl e
            | Inr (st', lb) \<Rightarrow>
                (case break_condition i lb (ls @ [lb]) of
                   Inl e \<Rightarrow> Inl e
                 | Inr True \<Rightarrow>
                     Inr \<lparr>final = st', lbs = ls @ [lb], n_iters = n + 1, left_by = Break\<rparr>
                 | Inr False \<Rightarrow> iterate step max_iters (i + 1) st' (ls @ [lb]) (n + 1)))
      else Inr \<lparr>final = st, lbs = ls, n_iters = n, left_by = RangeExhausted\<rparr>)"
  by pat_completeness auto
termination
  by (relation "measure (\<lambda>(step, max_iters, i, st, ls, n). max_iters - i)") auto

declare iterate.simps [simp del]

record config =
  arg_maxIter :: int
  arg_k :: int
  arg_randomInit :: bool

definition np_zeros :: "int \<Rightarrow> 'a \<Rightarrow> np_error + 'a list" where
  \<comment> \<open>\<^verbatim>\<open>np.zeros(shape=K)\<close> and its higher-dimensional forms: a negative extent raises\<close>
  "np_zeros K z = (if K < 0 then Inl ValueError else Inr (replicate (nat K) z))"

definition initial_state ::
  "(int \<Rightarrow> mat \<Rightarrow> np_error + nat list) \<Rightarrow> (vec \<Rightarrow> nat \<Rightarrow> np_error + mat) \<Rightarrow> config
     \<Rightarrow> mat \<Rightarrow> nat \<Rightarrow> np_error + vstate" where
  \<comment> \<open>the block "Variational parameters" of \<^verbatim>\<open>main\<close>; \<open>dirichlet\<close> is
     \<^verbatim>\<open>np.random.dirichlet\<close>\<close>
  "initial_state kmeans dirichlet cfg xn D =
     bindE (if arg_randomInit cfg then dirichlet (pr_alpha (main_priors (arg_k cfg))) (length xn)
            else init_kmeans kmeans xn (length xn) (arg_k cfg)) (\<lambda>lphi.
     bindE (np_zeros (arg_k cfg) 0) (\<lambda>lpi.
     bindE (np_zeros (arg_k cfg) 0) (\<lambda>lbeta.
     bindE (np_zeros (arg_k cfg) 0) (\<lambda>lnu.
     bindE (np_zeros (arg_k cfg) (replicate D 0)) (\<lambda>lm.
     bindE (np_zeros (arg_k cfg) (replicate D (replicate D 0))) (\<lambda>lw.
     Inr \<lparr>st_pi = lpi, st_beta = lbeta, st_nu = lnu, st_m = lm, st_W = lw,
          st_phi = lphi\<rparr>))))))"

definition main ::
  "(flt \<Rightarrow> flt) \<Rightarrow> (flt \<Rightarrow> flt) \<Rightarrow> (flt \<Rightarrow> nat \<Rightarrow> flt)
     \<Rightarrow> (int \<Rightarrow> mat \<Rightarrow> np_error + nat list) \<Rightarrow> (vec \<Rightarrow> nat \<Rightarrow> np_error + mat)
     \<Rightarrow> config \<Rightarrow> mat \<Rightarrow> nat \<Rightarrow> np_error + run_result" where
  \<comment> \<open>\<open>xn\<close> is the loaded dataset, of shape \<open>(length xn, D)\<close>. The printing and plotting of
     the verbose mode are left out.\<close>
  "main psi gammaln mgl kmeans dirichlet cfg xn D =
     bindE (initial_state kmeans dirichlet cfg xn D) (\<lambda>st0.
     iterate (sweep_elbo psi gammaln mgl (nat (arg_k cfg)) (length xn) D (main_priors (arg_k cfg))
                xn (map (\<lambda>x. outer x x) xn))
       (nat (arg_maxIter cfg)) 0 st0 [] 0)"

section \<open>A run on one point\<close>

text \<open>
  The dataset \<open>[[0, 0]]\<close> with one component and random initialisation: the state before
  the first sweep and the state after it, which the second sweep reproduces.
\<close>

definition one_point_st0 :: vstate where
  "one_point_st0 = \<lparr>st_pi = [0], st_beta = [0], st_nu = [0], st_m = [[0, 0]],
          st_W = [[[0, 0], [0, 0]]], st_phi = [[1]]\<rparr>"

definition one_point_st1 :: vstate where
  "one_point_st1 = \<lparr>st_pi = [2], st_beta = [17 / 10], st_nu = [4], st_m = [[0, 0]],
          st_W = [[[20, 30], [25, 40]]], st_phi = [[1]]\<rparr>"

section \<open>A run with ten components\<close>

text \<open>
  Two points, ten components and random initialisation, for one sweep. The draw gives the
  first component little of the first point and much of the second one; the other nine
  components are treated alike. Every column of the draw sums to \<open>1 / 5\<close>.
\<close>

definition ten_xn :: mat where
  "ten_xn = [[0, 0], [10, 0]]"

definition ten_draw :: mat where
  "ten_draw = [map (\<lambda>k. if k = 0 then 1 / 100 else 11 / 100) [0..<10],
               map (\<lambda>k. if k = 0 then 19 / 100 else 9 / 100) [0..<10]]"

definition ten_cfg :: config where
  "ten_cfg = \<lparr>arg_maxIter = 1, arg_k = 10, arg_randomInit = True\<rparr>"

definition ten_base :: "(flt \<Rightarrow> flt) \<Rightarrow> flt" where
  "ten_base psi = psi (6 / 5 + Fin float32_eps) - psi 12 + (1 / 2) * psi_sum psi 2 (16 / 5)"

definition ten_q :: "nat \<Rightarrow> nat \<Rightarrow> real" where
  "ten_q n k =
     (if n = 0
      then (if k = 0 then - 10 / 9 - 11552 / 26307 + ln 2 - (1 / 2) * ln (5846 / 9)
            else - 10 / 9 - 32 / 187 + ln 2 - (1 / 2) * ln 374)
      else (if k = 0
            then 12160 / 2923 - 28800 / 2923 - 10 / 9 - 11552 / 26307 + ln 2
                   - (1 / 2) * ln (5846 / 9)
            else 640 / 187 - 3200 / 187 - 10 / 9 - 32 / 187 + ln 2 - (1 / 2) * ln 374))"

definition ten_st1 :: "mat \<Rightarrow> vstate" where
  "ten_st1 phi =
     \<lparr>st_pi = map (\<lambda>k. 6 / 5) [0..<10], st_beta = map (\<lambda>k. 9 / 10) [0..<10],
      st_nu = map (\<lambda>k. 16 / 5) [0..<10],
      st_m = map (\<lambda>k. [Fin (if k = 0 then 19 / 9 else 1), 0]) [0..<10],
      st_W = map (\<lambda>k. [[Fin (if k = 0 then 3149 / 90 else 281 / 10), 30], [25, 40]]) [0..<10],
      st_phi = phi\<rparr>"

section \<open>Basic facts about the numbers, the error monad, the loops and softmax\<close>

lemma flt_zero [simp]: "(0::flt) = Fin 0" by (simp add: zero_flt_def)
lemma flt_one [simp]: "(1::flt) = Fin 1" by (simp add: one_flt_def)

lemma flt_numeral [simp]: "(numeral k :: flt) = Fin (numeral k)"
proof (induction k)
  case One
  then show ?case by (simp add: numeral_One)
next
  case (Bit0 k)
  have "(numeral (num.Bit0 k) :: flt) = numeral k + numeral k" by (rule numeral_Bit0)
  also have "\<dots> = Fin (numeral k + numeral k)" by (simp add: Bit0)
  also have "numeral k + numeral k = (numeral (num.Bit0 k) :: real)" by (simp add: numeral_Bit0)
  finally show ?case .
next
  case (Bit1 k)
  have "(numeral (num.Bit1 k) :: flt) = numeral k + numeral k + 1" by (rule numeral_Bit1)
  also have "\<dots> = Fin (numeral k + numeral k + 1)" by (simp add: Bit1)
  also have "numeral k + numeral k + 1 = (numeral (num.Bit1 k) :: real)" by (simp add: numeral_Bit1)
  finally show ?case .
qed

lemma sum_list_Fin: "sum_list (map Fin xs) = Fin (sum_list xs)"
  by (induction xs) simp_all

lemma sum_Fin: "(\<Sum>i<n. Fin (f i)) = Fin (\<Sum>i<n. f i)"
  for n :: nat
  by (induction n) simp_all

lemma fmax_Fin [simp]: "fmax (Fin a) (Fin b) = Fin (max a b)"
  by (simp add: fmax_def max_def)

lemma foldl_fmax_Fin: "foldl fmax (Fin a) (map Fin xs) = Fin (foldl max a xs)"
  by (induction xs arbitrary: a) simp_all

lemma foldl_max_Max: "foldl max a xs = Max (set (a # xs))"
  for a :: real
proof (induction xs arbitrary: a)
  case Nil
  then show ?case by simp
next
  case (Cons x xs)
  have "Max (set (max a x # xs)) = Max (insert a (insert x (set xs)))"
    by (cases "xs = []") (simp_all add: max.assoc)
  then show ?case using Cons by (simp add: insert_commute)
qed

lemma np_max_Fin: "xs \<noteq> [] \<Longrightarrow> np_max (map Fin xs) = Fin (Max (set xs))"
  by (cases xs) (simp_all add: np_max_def foldl_fmax_Fin foldl_max_Max)

lemma bindE_Inr [simp]: "bindE (Inr x) f = f x" by (simp add: bindE_def)
lemma bindE_Inl [simp]: "bindE (Inl e) f = Inl e" by (simp add: bindE_def)
lemma bindE_eq_Inr: "bindE m f = Inr y \<longleftrightarrow> (\<exists>x. m = Inr x \<and> f x = Inr y)"
  by (cases m) simp_all

lemma foldE_append: "foldE f (xs @ ys) s = bindE (foldE f xs s) (foldE f ys)"
  by (induction xs arbitrary: s) (simp_all add: bindE_def split: sum.splits)

lemma foldE_single: "foldE f [x] s = f x s"
  by (cases "f x s") simp_all

lemma foldE_upt_Suc: "foldE f [0..<Suc n] s = bindE (foldE f [0..<n] s) (f n)"
proof -
  have "foldE f [n] = f n" by (rule ext) (rule foldE_single)
  then show ?thesis by (simp add: foldE_append)
qed

lemma foldE_rows:
  assumes step: "\<And>n s s'. n < N \<Longrightarrow> f n s = Inr s' \<Longrightarrow>
             length s' = length s \<and> n < length s \<and> Q n (s ! n) (s' ! n) \<and>
             (\<forall>m. m \<noteq> n \<longrightarrow> s' ! m = s ! m)"
    and run: "foldE f [0..<M] s = Inr s'" and "M \<le> N"
  shows "length s' = length s \<and> M \<le> length s \<and> (\<forall>n<M. Q n (s ! n) (s' ! n)) \<and>
         (\<forall>m\<ge>M. s' ! m = s ! m)"
  using run \<open>M \<le> N\<close>
proof (induction M arbitrary: s')
  case 0
  then show ?case by simp
next
  case (Suc M)
  from Suc.prems(1)[unfolded foldE_upt_Suc]
  obtain t where t: "foldE f [0..<M] s = Inr t" and ft: "f M t = Inr s'"
    by (auto simp: bindE_eq_Inr)
  from Suc.IH[OF t] Suc.prems have IH: "length t = length s" "M \<le> length s"
    "\<forall>n<M. Q n (s ! n) (t ! n)" "\<forall>m\<ge>M. t ! m = s ! m" by auto
  from step[OF _ ft] Suc.prems have S: "length s' = length t" "M < length t"
    "Q M (t ! M) (s' ! M)" "\<forall>m. m \<noteq> M \<longrightarrow> s' ! m = t ! m" by auto
  have "Q M (s ! M) (s' ! M)" using S(3) IH(4) by simp
  then show ?case using IH S by (auto simp: less_Suc_eq)
qed

lemma setitem_Inr: "setitem xs i v = Inr ys \<longleftrightarrow> i < length xs \<and> ys = xs[i := v]"
  by (auto simp: setitem_def)

lemma getitem_Inr: "getitem xs i = Inr y \<longleftrightarrow> i < length xs \<and> y = xs ! i"
  by (auto simp: getitem_def)

lemma float32_eps_pos: "0 < float32_eps" by (simp add: float32_eps_def)

lemma member_le_sum_list_real:
  fixes xs :: "real list"
  shows "x \<in> set xs \<Longrightarrow> \<forall>y \<in> set xs. 0 \<le> y \<Longrightarrow> x \<le> sum_list xs"
proof (induction xs)
  case Nil
  then show ?case by simp
next
  case (Cons a xs)
  have "0 \<le> sum_list xs" using Cons.prems by (intro sum_list_nonneg) auto
  then show ?case using Cons by auto
qed

lemma exp_shift_sum_ge1:
  fixes x :: "real list"
  assumes "x \<noteq> []"
  shows "1 \<le> sum_list (map (\<lambda>xi. exp (xi - Max (set x))) x)"
proof -
  have "Max (set x) \<in> set x" using assms by (intro Max_in) auto
  then have mem: "exp (Max (set x) - Max (set x)) \<in> set (map (\<lambda>xi. exp (xi - Max (set x))) x)"
    by force
  have nn: "\<forall>y \<in> set (map (\<lambda>xi. exp (xi - Max (set x))) x). 0 \<le> y" by auto
  have "exp (Max (set x) - Max (set x)) \<le> sum_list (map (\<lambda>xi. exp (xi - Max (set x))) x)"
    using member_le_sum_list_real[OF mem nn] .
  then show ?thesis by simp
qed

lemma exp_shift_sum_le:
  fixes x :: "real list"
  shows "sum_list (map (\<lambda>xi. exp (xi - Max (set x))) x) \<le> real (length x)"
proof -
  have "sum_list (map (\<lambda>xi. exp (xi - Max (set x))) x) \<le> sum_list (map (\<lambda>xi. 1) x)"
    by (intro sum_list_mono) (auto)
  then show ?thesis by (simp add: sum_list_triv)
qed

lemma sum_list_affine:
  fixes c :: real
  shows "sum_list (map (\<lambda>xi. (g xi + e) / c) x) = (sum_list (map g x) + real (length x) * e) / c"
  by (induction x) (simp_all add: add_divide_distrib algebra_simps)

text \<open>The value of \<^verbatim>\<open>softmax\<close> on a row of finite scores, as a list of real numbers.\<close>

lemma sum_list_Fin_map: "sum_list (map (\<lambda>x. Fin (f x)) xs) = Fin (sum_list (map f xs))"
  by (induction xs) simp_all

text \<open>Not-a-number absorbs every operation.\<close>

lemma div_NaN [simp]: "x / NaN = NaN"
  by (cases x) simp_all

lemma NaN_absorbs [simp]:
  "x + NaN = NaN" "NaN + x = NaN" "x - NaN = NaN" "NaN - x = NaN"
  "x * NaN = NaN" "NaN * x = NaN" "NaN / x = NaN"
  by (cases x; simp)+

lemma softmax_Fin:
  assumes "xs \<noteq> []"
  shows "softmax (map Fin xs) =
           Inr (map (\<lambda>xi. Fin ((exp (xi - Max (set xs)) + float32_eps) /
                  (sum_list (map (\<lambda>xi. exp (xi - Max (set xs))) xs) + float32_eps))) xs)"
proof -
  let ?S = "sum_list (map (\<lambda>xi. exp (xi - Max (set xs))) xs)"
  have S: "1 \<le> ?S" by (rule exp_shift_sum_ge1[OF assms])
  have ne: "?S + float32_eps \<noteq> 0" using S float32_eps_pos by linarith
  have e: "map (\<lambda>xi. np_exp (xi - np_max (map Fin xs))) (map Fin xs)
             = map Fin (map (\<lambda>xi. exp (xi - Max (set xs))) xs)"
    using assms by (simp add: np_max_Fin comp_def)
  show ?thesis
    unfolding softmax_def Let_def e using assms ne
    by (simp add: sum_list_Fin_map comp_def)
qed

lemma softmax_Fin_props:
  assumes "xs \<noteq> []"
  shows "\<exists>ys. softmax (map Fin xs) = Inr (map Fin ys) \<and> length ys = length xs \<and>
           (\<forall>p \<in> set ys. 0 < p \<and> float32_eps / (real (length xs) + float32_eps) \<le> p) \<and>
           1 \<le> sum_list ys \<and> sum_list ys \<le> 1 + (real (length xs) - 1) * float32_eps \<and>
           sum_list ys = 1 + (real (length xs) - 1) * float32_eps /
              (sum_list (map (\<lambda>xi. exp (xi - Max (set xs))) xs) + float32_eps)"
proof -
  let ?S = "sum_list (map (\<lambda>xi. exp (xi - Max (set xs))) xs)"
  let ?ys = "map (\<lambda>xi. (exp (xi - Max (set xs)) + float32_eps) / (?S + float32_eps)) xs"
  have S: "1 \<le> ?S" by (rule exp_shift_sum_ge1[OF assms])
  have Sle: "?S \<le> real (length xs)" by (rule exp_shift_sum_le)
  have pos: "0 < ?S + float32_eps" using S float32_eps_pos by linarith
  have sm: "softmax (map Fin xs) = Inr (map Fin ?ys)"
    using softmax_Fin[OF assms] by (simp add: comp_def)
  have ent: "\<forall>p \<in> set ?ys. 0 < p \<and> float32_eps / (real (length xs) + float32_eps) \<le> p"
  proof
    fix p assume "p \<in> set ?ys"
    then obtain xi where p: "p = (exp (xi - Max (set xs)) + float32_eps) / (?S + float32_eps)"
      by auto
    have n: "0 < exp (xi - Max (set xs)) + float32_eps"
      using float32_eps_pos by (simp add: add_pos_pos)
    have "float32_eps / (real (length xs) + float32_eps) \<le> float32_eps / (?S + float32_eps)"
      using S Sle float32_eps_pos by (intro divide_left_mono mult_pos_pos) auto
    also have "\<dots> \<le> p" unfolding p using S float32_eps_pos
      by (intro divide_right_mono) auto
    finally show "0 < p \<and> float32_eps / (real (length xs) + float32_eps) \<le> p"
      using n pos p by simp
  qed
  have n1: "1 \<le> real (length xs)" using assms by (cases xs) auto
  have "sum_list ?ys = (?S + real (length xs) * float32_eps) / (?S + float32_eps)"
    by (simp add: sum_list_affine)
  also have "\<dots> = 1 + (real (length xs) - 1) * float32_eps / (?S + float32_eps)"
    using pos by (simp add: field_simps)
  finally have sum: "sum_list ?ys = 1 + (real (length xs) - 1) * float32_eps / (?S + float32_eps)" .
  have q0: "0 \<le> (real (length xs) - 1) * float32_eps" using n1 float32_eps_pos by simp
  have lo: "1 \<le> sum_list ?ys" using sum q0 pos by simp
  have "(real (length xs) - 1) * float32_eps / (?S + float32_eps)
          \<le> (real (length xs) - 1) * float32_eps / 1"
    using q0 S float32_eps_pos by (intro divide_left_mono) auto
  then have hi: "sum_list ?ys \<le> 1 + (real (length xs) - 1) * float32_eps" using sum by simp
  show ?thesis using sm ent lo hi sum by (intro exI[of _ ?ys]) simp
qed

text \<open>A row with a not-a-number or a plus infinity among its scores.\<close>

lemma sum_list_NaN: "NaN \<in> set xs \<Longrightarrow> sum_list xs = NaN"
proof (induction xs)
  case Nil
  then show ?case by simp
next
  case (Cons a xs)
  then show ?case by (cases "a = NaN"; cases a; cases "sum_list xs") auto
qed

lemma foldl_fmax_NaN: "a = NaN \<or> NaN \<in> set xs \<Longrightarrow> foldl fmax a xs = NaN"
  by (induction xs arbitrary: a) (auto simp: fmax_def)

lemma foldl_fmax_PInf:
  "NaN \<notin> set (a # xs) \<Longrightarrow> PInf \<in> set (a # xs) \<Longrightarrow> foldl fmax a xs = PInf"
proof (induction xs arbitrary: a)
  case Nil
  then show ?case by simp
next
  case (Cons x xs)
  have "fmax a x \<noteq> NaN" using Cons.prems(1) by (auto simp: fmax_def)
  moreover have "PInf \<in> set (fmax a x # xs)"
    using Cons.prems by (cases a; cases x) (auto simp: fmax_def)
  ultimately show ?case using Cons.IH[of "fmax a x"] Cons.prems(1) by simp
qed

lemma np_max_bad:
  assumes "NaN \<in> set x \<or> PInf \<in> set x"
  shows "np_max x = NaN \<or> (np_max x = PInf \<and> NaN \<notin> set x)"
proof (cases x)
  case Nil
  then show ?thesis using assms by simp
next
  case (Cons a xs)
  show ?thesis
  proof (cases "NaN \<in> set x")
    case True
    then show ?thesis using Cons foldl_fmax_NaN[of a xs] by (auto simp: np_max_def)
  next
    case False
    then show ?thesis using Cons assms foldl_fmax_PInf[of a xs] by (auto simp: np_max_def)
  qed
qed

lemma softmax_bad:
  assumes "NaN \<in> set x \<or> PInf \<in> set x"
  shows "softmax x = Inr (replicate (length x) NaN)"
proof -
  from assms have ne: "x \<noteq> []" by auto
  let ?e = "map (\<lambda>xi. np_exp (xi - np_max x)) x"
  have "NaN \<in> set ?e"
  proof (cases "np_max x = NaN")
    case True
    obtain a where "a \<in> set x" using ne by (cases x) auto
    then have "np_exp (a - np_max x) \<in> set ?e" by simp
    moreover have "np_exp (a - np_max x) = NaN" unfolding True by (cases a) simp_all
    ultimately show ?thesis by simp
  next
    case False
    with np_max_bad[OF assms] have m: "np_max x = PInf" and "NaN \<notin> set x" by auto
    with assms have "PInf \<in> set x" by auto
    then have "np_exp (PInf - np_max x) \<in> set ?e" by (simp add: rev_image_eqI)
    then show ?thesis unfolding m by simp
  qed
  then have s: "sum_list ?e = NaN" by (rule sum_list_NaN)
  show ?thesis unfolding softmax_def Let_def s using ne
    by (simp add: comp_def map_replicate_const)
qed

lemma iterate_invariant:
  assumes "iterate step M i st ls n = Inr r"
    and "length ls = i" and "n = i"
    and "\<forall>j. 0 < j \<and> j < i \<longrightarrow> \<not> \<bar>ls ! j - ls ! (j - 1)\<bar> < THRESHOLD"
  shows "length (lbs r) = n_iters r \<and> take i (lbs r) = ls \<and>
         i \<le> n_iters r \<and> n_iters r \<le> max M i \<and>
         (left_by r = Break \<longrightarrow>
            2 \<le> n_iters r \<and> i < n_iters r \<and>
            \<bar>lbs r ! (n_iters r - 1) - lbs r ! (n_iters r - 2)\<bar> < THRESHOLD) \<and>
         (left_by r = RangeExhausted \<longrightarrow> n_iters r = max M i) \<and>
         (\<forall>j. 0 < j \<and> j < n_iters r \<and> (left_by r = Break \<longrightarrow> j + 1 < n_iters r)
              \<longrightarrow> \<not> \<bar>lbs r ! j - lbs r ! (j - 1)\<bar> < THRESHOLD)"
  using assms
proof (induction step M i st ls n rule: iterate.induct)
  case (1 step M i st ls n)
  show ?case
  proof (cases "i < M")
    case False
    with "1.prems" have r: "r = \<lparr>final = st, lbs = ls, n_iters = n, left_by = RangeExhausted\<rparr>"
      by (simp add: iterate.simps[of step M i])
    from False "1.prems" show ?thesis unfolding r by (auto simp: max_def)
  next
    case True
    from True "1.prems"(1) obtain st' lb where st: "step st = Inr (st', lb)"
      by (subst (asm) iterate.simps) (auto split: sum.splits)
    have bc: "break_condition i lb (ls @ [lb]) =
        Inr (0 < i \<and> \<bar>lb - ls ! (i - 1)\<bar> < THRESHOLD)"
      using "1.prems"(2) by (auto simp: break_condition_def getitem_def nth_append)
    have old: "\<And>j. 0 < j \<Longrightarrow> j < i \<Longrightarrow>
        (ls @ [lb]) ! j = ls ! j \<and> (ls @ [lb]) ! (j - 1) = ls ! (j - 1)"
      using "1.prems"(2) by (simp add: nth_append less_imp_diff_less)
    have a: "(ls @ [lb]) ! i = lb" using "1.prems"(2) by (simp add: nth_append)
    have b: "0 < i \<Longrightarrow> (ls @ [lb]) ! (i - 1) = ls ! (i - 1)"
      using "1.prems"(2) by (simp add: nth_append)
    show ?thesis
    proof (cases "0 < i \<and> \<bar>lb - ls ! (i - 1)\<bar> < THRESHOLD")
      case brk: True
      with True st bc "1.prems"(1)
      have r: "r = \<lparr>final = st', lbs = ls @ [lb], n_iters = n + 1, left_by = Break\<rparr>"
        by (subst (asm) iterate.simps) simp
      have two: "Suc (Suc 0) \<le> Suc i" using brk by simp
      have "\<forall>j. 0 < j \<and> j < i \<longrightarrow> \<not> \<bar>(ls @ [lb]) ! j - (ls @ [lb]) ! (j - 1)\<bar> < THRESHOLD"
        using old "1.prems"(4) by simp
      then show ?thesis unfolding r using True brk "1.prems"(2,3) a b
        by (simp add: max_def numeral_2_eq_2)
    next
      case nobrk: False
      with True st bc "1.prems"(1)
      have rec: "iterate step M (i + 1) st' (ls @ [lb]) (n + 1) = Inr r"
        by (subst (asm) iterate.simps) (auto)
      have bc': "break_condition i lb (ls @ [lb]) = Inr False" using bc nobrk by simp
      have inv: "\<forall>j. 0 < j \<and> j < i + 1 \<longrightarrow> \<not> \<bar>(ls @ [lb]) ! j - (ls @ [lb]) ! (j - 1)\<bar> < THRESHOLD"
      proof (intro allI impI)
        fix j assume j: "0 < j \<and> j < i + 1"
        show "\<not> \<bar>(ls @ [lb]) ! j - (ls @ [lb]) ! (j - 1)\<bar> < THRESHOLD"
        proof (cases "j = i")
          case True
          then show ?thesis using nobrk j a b by simp
        next
          case False
          then have "j < i" using j by simp
          then show ?thesis using "1.prems"(4) j old by simp
        qed
      qed
      have len: "length (ls @ [lb]) = i + 1" using "1.prems"(2) by simp
      have n1: "n + 1 = i + 1" using "1.prems"(3) by simp
      note IH = "1.IH"[OF True st refl bc' refl rec len n1 inv]
      from IH have tk: "take (i + 1) (lbs r) = ls @ [lb]" by simp
      have "take i (take (i + 1) (lbs r)) = take i (ls @ [lb])" using tk by simp
      then have tk': "take i (lbs r) = ls" using "1.prems"(2) by (simp add: min_def)
      have mx: "max M (i + 1) = max M i" using True by (simp add: max_def)
      show ?thesis using IH tk' mx by auto
    qed
  qed
qed

lemma iterate_trace:
  assumes "iterate step M i st ls n = Inr r" and "length ls = i"
  shows "\<exists>sts. length sts = length (lbs r) - i + 1 \<and> sts ! 0 = st \<and> final r = last sts \<and>
           (\<forall>j. j + 1 < length sts \<longrightarrow> step (sts ! j) = Inr (sts ! (j + 1), lbs r ! (i + j))) \<and>
           i \<le> length (lbs r) \<and> take i (lbs r) = ls"
  using assms
proof (induction step M i st ls n rule: iterate.induct)
  case (1 step M i st ls n)
  show ?case
  proof (cases "i < M")
    case False
    with "1.prems" have r: "r = \<lparr>final = st, lbs = ls, n_iters = n, left_by = RangeExhausted\<rparr>"
      by (simp add: iterate.simps[of step M i])
    show ?thesis unfolding r using "1.prems"(2) by (intro exI[of _ "[st]"]) simp
  next
    case True
    from True "1.prems"(1) obtain st' lb where st: "step st = Inr (st', lb)"
      by (subst (asm) iterate.simps) (auto split: sum.splits)
    from True st "1.prems"(1) obtain b where bc: "break_condition i lb (ls @ [lb]) = Inr b"
      by (subst (asm) iterate.simps) (auto split: sum.splits)
    have a: "(ls @ [lb]) ! i = lb" using "1.prems"(2) by (simp add: nth_append)
    show ?thesis
    proof (cases b)
      case brk: True
      with True st bc "1.prems"(1)
      have r: "r = \<lparr>final = st', lbs = ls @ [lb], n_iters = n + 1, left_by = Break\<rparr>"
        by (subst (asm) iterate.simps) simp
      show ?thesis unfolding r using "1.prems"(2) st a
        by (intro exI[of _ "[st, st']"]) simp
    next
      case nobrk: False
      with True st bc "1.prems"(1)
      have rec: "iterate step M (i + 1) st' (ls @ [lb]) (n + 1) = Inr r"
        by (subst (asm) iterate.simps) auto
      have bc': "break_condition i lb (ls @ [lb]) = Inr False" using bc nobrk by simp
      have len: "length (ls @ [lb]) = i + 1" using "1.prems"(2) by simp
      from "1.IH"[OF True st refl bc' refl rec len] obtain sts where
        l: "length sts = length (lbs r) - (i + 1) + 1" and z: "sts ! 0 = st'" and
        f: "final r = last sts" and
        s: "\<forall>j. j + 1 < length sts \<longrightarrow>
              step (sts ! j) = Inr (sts ! (j + 1), lbs r ! (i + 1 + j))" and
        le: "i + 1 \<le> length (lbs r)" and tk: "take (i + 1) (lbs r) = ls @ [lb]"
        by blast
      have ne: "sts \<noteq> []" using l by auto
      have "take i (take (i + 1) (lbs r)) = take i (ls @ [lb])" using tk by simp
      then have tk': "take i (lbs r) = ls" using "1.prems"(2) by (simp add: min_def)
      have "take (i + 1) (lbs r) ! i = lbs r ! i" by (rule nth_take) simp
      then have li: "lbs r ! i = lb" unfolding tk using a by simp
      have step: "\<forall>j. j + 1 < length (st # sts) \<longrightarrow>
              step ((st # sts) ! j) = Inr ((st # sts) ! (j + 1), lbs r ! (i + j))"
      proof (intro allI impI)
        fix j assume j: "j + 1 < length (st # sts)"
        show "step ((st # sts) ! j) = Inr ((st # sts) ! (j + 1), lbs r ! (i + j))"
        proof (cases j)
          case 0
          then show ?thesis using st z li by simp
        next
          case (Suc j')
          then have "j' + 1 < length sts" using j by simp
          with s have "step (sts ! j') = Inr (sts ! (j' + 1), lbs r ! (i + 1 + j'))" by blast
          then show ?thesis using Suc by simp
        qed
      qed
      have "length (st # sts) = length (lbs r) - i + 1" using l le by simp
      moreover have "(st # sts) ! 0 = st" by simp
      moreover have "final r = last (st # sts)" using f ne by simp
      moreover have "i \<le> length (lbs r)" using le by simp
      ultimately show ?thesis using step tk' by blast
    qed
  qed
qed

section \<open>Evaluation on the one-point run\<close>

lemmas np_defs = getitem_def setitem_def getitem2_def column_def ncols_def shape1_def sum_axis0_def
  np_iadd1_def np_iadd2_def np_binop1_def np_binop2_def np_assign1_def np_assign2_def
  stretch1_def stretch2_def compat_def bdim_def scale1_def scale2_def outer_def
  np_div1_def dot_vv_def dot_mv_def dot_vm_def dot_mm_def transp_def trace_def
  det_def inv_np_def is_square_def minor_def drop_nth_def

lemma upt1: "[0..<1] = [0]" by (simp add: upt_rec)
lemma lessThan2: "{..<2::nat} = {0, 1}" by auto

lemma pi0: "update_lambda_pi (Suc 0) [Fin 0] [[Fin 1]] [Fin 1] = Inr [Fin 2]"
  by (simp add: update_lambda_pi_def np_defs)

lemma m0: "update_lambda_m (Suc 0) [[Fin 0, Fin 0]] [[Fin 1]] [Fin (17 / 10)] [Fin 0, Fin 0]
     (Fin (7 / 10)) [[Fin 0, Fin 0]] (Suc 0) = Inr [[Fin 0, Fin 0]]"
  by (simp add: update_lambda_m_def weighted_points_def np_defs)

lemma W0: "update_lambda_W [[[Fin 0, Fin 0], [Fin 0, Fin 0]]] [[Fin 1]] [Fin (17 / 10)]
     [[Fin 0, Fin 0]] [[Fin 20, Fin 30], [Fin 25, Fin 40]] (Fin (7 / 10)) [Fin 0, Fin 0]
     [[[Fin 0, Fin 0], [Fin 0, Fin 0]]] (Suc 0) (Suc 0) = Inr [[[Fin 20, Fin 30], [Fin 25, Fin 40]]]"
  by (simp add: update_lambda_W_def weighted_outers_def np_defs)

lemma inv0: "inv_np [[Fin 20, Fin 30], [Fin 25, Fin 40]]
     = Inr [[Fin (4 / 5), Fin (- 3 / 5)], [Fin (- 1 / 2), Fin (2 / 5)]]"
  by (simp add: np_defs numeral_2_eq_2 lessThan_Suc upt_rec)

lemma det0: "det [[Fin 20, Fin 30], [Fin 25, Fin 40]] = Inr (Fin 50)"
  by (simp add: np_defs numeral_2_eq_2 lessThan_Suc)

lemma softmax_single: "softmax [Fin s] = Inr [Fin 1]"
  by (simp add: softmax_def np_max_def float32_eps_def)

lemma score0: "\<exists>s. phi_score (\<lambda>x. Fin 0) 2 [Fin 2] [[Fin 0, Fin 0]] [Fin 4]
     [[[Fin 20, Fin 30], [Fin 25, Fin 40]]] [Fin (17 / 10)] [Fin 0, Fin 0] 0 = Inr (Fin s)"
  by (simp add: phi_score_def dirichlet_expectation_def phi_mean_term_def phi_prec_term_def
      phi_beta_term_def phi_quad_term_def phi_psi_term_def phi_logdet_term_def psi_sum_def
      inv0 det0 getitem_def dot_mv_def dot_vv_def dot_vm_def dot_mm_def
      scale1_def scale2_def outer_def ncols_def trace_def lessThan2 numeral_2_eq_2 upt_rec)

lemma phi0: "update_lambda_phi (\<lambda>x. Fin 0) [[Fin 1]] [Fin 2] [[Fin 0, Fin 0]] [Fin 4]
     [[[Fin 20, Fin 30], [Fin 25, Fin 40]]] [Fin (17 / 10)] [[Fin 0, Fin 0]] (Suc 0) (Suc 0) 2
   = Inr [[Fin 1]]"
proof -
  obtain s where s: "phi_score (\<lambda>x. Fin 0) 2 [Fin 2] [[Fin 0, Fin 0]] [Fin 4]
     [[[Fin 20, Fin 30], [Fin 25, Fin 40]]] [Fin (17 / 10)] [Fin 0, Fin 0] 0 = Inr (Fin s)"
    using score0 by blast
  show ?thesis
    by (simp add: update_lambda_phi_def phi_row_def getitem_def setitem_def s softmax_single)
qed

lemma niw0: "\<exists>s0 s1 s2 s3. NIW_sufficient_statistics (\<lambda>x. Fin 0) 0 2 [Fin 4]
     [[[Fin 20, Fin 30], [Fin 25, Fin 40]]] [[Fin 0, Fin 0]] [Fin (17 / 10)]
   = Inr (s0, s1, Fin s2, Fin s3) \<and> s0 = [Fin 0, Fin 0] \<and>
     s1 = [[Fin (- 8 / 5), Fin (6 / 5)], [Fin 1, Fin (- 4 / 5)]]"
  by (simp add: NIW_sufficient_statistics_def inv0 det0 psi_sum_def
      getitem_def dot_mv_def dot_vv_def dot_vm_def
      scale1_def scale2_def ncols_def lessThan2 numeral_2_eq_2 upt_rec)

lemma elbo0: "\<exists>v. elbo (\<lambda>x. Fin 0) (\<lambda>x. Fin 0) (\<lambda>a d. Fin 0) (Suc 0) [[Fin 1]] [Fin 2] [[Fin 0, Fin 0]]
     [[[Fin 20, Fin 30], [Fin 25, Fin 40]]] [Fin (17 / 10)] [Fin 4]
     [Fin 1] (Fin 3) (Fin (7 / 10)) [Fin 0, Fin 0] [[Fin 20, Fin 30], [Fin 25, Fin 40]]
     [[Fin 0, Fin 0]] [[[Fin 0, Fin 0], [Fin 0, Fin 0]]] (Suc 0) 2 [Fin 1] = Inr (Fin v)"
proof -
  obtain s0 s1 s2 s3 where n: "NIW_sufficient_statistics (\<lambda>x. Fin 0) 0 2 [Fin 4]
     [[[Fin 20, Fin 30], [Fin 25, Fin 40]]] [[Fin 0, Fin 0]] [Fin (17 / 10)]
   = Inr (s0, s1, Fin s2, Fin s3)" "s0 = [Fin 0, Fin 0]"
     "s1 = [[Fin (- 8 / 5), Fin (6 / 5)], [Fin 1, Fin (- 4 / 5)]]"
    using niw0 by blast
  show ?thesis
    by (simp add: elbo_def elbo_init_def elbo_component_def multigammaln_def det0 n
        weighted_points_def weighted_outers_def dirichlet_expectation_def np_defs
        lessThan2 upt_rec)
qed

lemma sweep0: "sweep (\<lambda>x. Fin 0) 1 1 2 (main_priors 1) [[Fin 0, Fin 0]]
     [[[Fin 0, Fin 0], [Fin 0, Fin 0]]] one_point_st0 = Inr (one_point_st1, [Fin 1])"
  by (simp add: sweep_def one_point_st0_def one_point_st1_def main_priors_def pi0 m0 W0 phi0
      sum_axis0_def shape1_def update_lambda_beta_def update_lambda_nu_def getitem_def
      setitem_def Let_def)

lemma sweep1: "sweep (\<lambda>x. Fin 0) 1 1 2 (main_priors 1) [[Fin 0, Fin 0]]
     [[[Fin 0, Fin 0], [Fin 0, Fin 0]]] one_point_st1 = Inr (one_point_st1, [Fin 1])"
  apply (simp add: sweep_def one_point_st1_def main_priors_def sum_axis0_def shape1_def
      update_lambda_beta_def update_lambda_nu_def update_lambda_pi_def column_def
      getitem_def setitem_def Let_def)
  apply (simp add: update_lambda_m_def weighted_points_def update_lambda_W_def
     weighted_outers_def np_defs phi0)
  done

lemma sweep_elbo01:
  "\<exists>v. sweep_elbo (\<lambda>x. Fin 0) (\<lambda>x. Fin 0) (\<lambda>a d. Fin 0) (Suc 0) (Suc 0) 2 (main_priors 1) [[Fin 0, Fin 0]]
          [[[Fin 0, Fin 0], [Fin 0, Fin 0]]] one_point_st0 = Inr (one_point_st1, Fin v) \<and>
       sweep_elbo (\<lambda>x. Fin 0) (\<lambda>x. Fin 0) (\<lambda>a d. Fin 0) (Suc 0) (Suc 0) 2 (main_priors 1) [[Fin 0, Fin 0]]
          [[[Fin 0, Fin 0], [Fin 0, Fin 0]]] one_point_st1 = Inr (one_point_st1, Fin v)"
proof -
  obtain v where "elbo (\<lambda>x. Fin 0) (\<lambda>x. Fin 0) (\<lambda>a d. Fin 0) (Suc 0) [[Fin 1]] [Fin 2] [[Fin 0, Fin 0]]
     [[[Fin 20, Fin 30], [Fin 25, Fin 40]]] [Fin (17 / 10)] [Fin 4]
     [Fin 1] (Fin 3) (Fin (7 / 10)) [Fin 0, Fin 0] [[Fin 20, Fin 30], [Fin 25, Fin 40]]
     [[Fin 0, Fin 0]] [[[Fin 0, Fin 0], [Fin 0, Fin 0]]] (Suc 0) 2 [Fin 1] = Inr (Fin v)"
    using elbo0 by blast
  then show ?thesis
    using sweep0[simplified] sweep1[simplified]
    by (intro exI[of _ v]) (simp add: sweep_elbo_def one_point_st1_def main_priors_def)
qed

lemma init1: "initial_state kmeans (\<lambda>alpha N. Inr [[Fin 1]])
    \<lparr>arg_maxIter = M, arg_k = 1, arg_randomInit = True\<rparr> [[Fin 0, Fin 0]] 2 = Inr one_point_st0"
  by (simp add: initial_state_def np_zeros_def one_point_st0_def numeral_2_eq_2)

lemma run1:
  "\<exists>v. main (\<lambda>x. 0) (\<lambda>x. 0) (\<lambda>a d. 0) kmeans (\<lambda>alpha N. Inr [[1]])
     \<lparr>arg_maxIter = 100, arg_k = 1, arg_randomInit = True\<rparr> [[0, 0]] 2 =
     Inr \<lparr>final = one_point_st1, lbs = [Fin v, Fin v], n_iters = 2, left_by = Break\<rparr>"
proof -
  let ?step = "sweep_elbo (\<lambda>x. Fin 0) (\<lambda>x. Fin 0) (\<lambda>a d. Fin 0) (Suc 0) (Suc 0) 2 (main_priors 1)
     [[Fin 0, Fin 0]] [[[Fin 0, Fin 0], [Fin 0, Fin 0]]]"
  obtain v where
    a: "?step one_point_st0 = Inr (one_point_st1, Fin v)" and
    b: "?step one_point_st1 = Inr (one_point_st1, Fin v)"
    using sweep_elbo01 by blast
  have i2: "iterate ?step 100 (Suc 0) one_point_st1 [Fin v] (Suc 0) =
        Inr \<lparr>final = one_point_st1, lbs = [Fin v, Fin v], n_iters = 2, left_by = Break\<rparr>"
    by (subst iterate.simps) (simp add: b break_condition_def getitem_def THRESHOLD_def)
  have i1: "iterate ?step 100 0 one_point_st0 [] 0 =
        Inr \<lparr>final = one_point_st1, lbs = [Fin v, Fin v], n_iters = 2, left_by = Break\<rparr>"
    by (subst iterate.simps) (simp add: a break_condition_def i2)
  show ?thesis
    by (intro exI[of _ v]) (simp add: main_def init1 outer_def i1)
qed

lemma update_lambda_phi_no_components:
  assumes "0 < N" and "lambda_phi \<noteq> []" and "lambda_phi ! 0 = []" and "xn \<noteq> []"
  shows "update_lambda_phi psi lambda_phi lambda_pi lambda_m lambda_nu lambda_W lambda_beta xn N 0 D
           = Inl ValueError"
proof -
  obtain N' where N: "N = Suc N'" using assms(1) by (cases N) auto
  have u: "[0..<Suc N'] = 0 # [Suc 0..<Suc N']" by (simp add: upt_rec)
  show ?thesis
    unfolding update_lambda_phi_def N u using assms(2,3,4)
    by (simp add: getitem_def phi_row_def softmax_def)
qed

lemma sweep_no_components:
  assumes "st_phi st \<noteq> []" and "st_phi st ! 0 = []" and "xn \<noteq> []"
  shows "sweep psi 0 (length xn) D pr xn xn_xnt st = Inl ValueError"
proof -
  have "0 < length xn" using assms(3) by simp
  from update_lambda_phi_no_components[OF this assms(1,2,3)] show ?thesis
    by (simp add: sweep_def update_lambda_pi_def update_lambda_beta_def update_lambda_nu_def
        update_lambda_m_def update_lambda_W_def Let_def)
qed

section \<open>The shape of the updates\<close>

lemma range_Fin_map: "set sc \<subseteq> range Fin \<Longrightarrow> \<exists>xs. sc = map Fin xs"
proof (induction sc)
  case Nil
  then show ?case by simp
next
  case (Cons s sc)
  then obtain a xs where "s = Fin a" and "sc = map Fin xs" by auto
  then have "s # sc = map Fin (a # xs)" by simp
  then show ?case by (rule exI[of _ "a # xs"])
qed

lemma phi_row_scores:
  assumes "phi_row psi K D lpi lm lnu lw lbeta x row = Inr row'"
  shows "\<exists>sc. softmax sc = Inr row' \<and> length sc = length row \<and> K \<le> length row \<and>
           (\<forall>k<K. phi_score psi D lpi lm lnu lw lbeta x k = Inr (sc ! k)) \<and>
           (\<forall>m\<ge>K. sc ! m = row ! m)"
proof -
  from assms obtain sc where
    f: "foldE (\<lambda>k r. bindE (phi_score psi D lpi lm lnu lw lbeta x k) (\<lambda>s. setitem r k s))
          [0..<K] row = Inr sc" and sm: "softmax sc = Inr row'"
    by (auto simp: phi_row_def bindE_eq_Inr)
  have "length sc = length row \<and> K \<le> length row \<and>
        (\<forall>n<K. phi_score psi D lpi lm lnu lw lbeta x n = Inr (sc ! n)) \<and>
        (\<forall>m\<ge>K. sc ! m = row ! m)"
  proof (rule foldE_rows[where N = K
        and Q = "\<lambda>n a b. phi_score psi D lpi lm lnu lw lbeta x n = Inr b", OF _ f])
    fix n s s'
    assume "bindE (phi_score psi D lpi lm lnu lw lbeta x n) (\<lambda>sa. setitem s n sa) = Inr s'"
    then show "length s' = length s \<and> n < length s \<and>
        phi_score psi D lpi lm lnu lw lbeta x n = Inr (s' ! n) \<and>
        (\<forall>m. m \<noteq> n \<longrightarrow> s' ! m = s ! m)"
      by (auto simp: bindE_eq_Inr setitem_Inr)
  qed simp
  with sm show ?thesis by blast
qed

lemma update_lambda_phi_rows:
  assumes "update_lambda_phi psi lphi lpi lm lnu lw lbeta xn N K D = Inr phi'"
  shows "length phi' = length lphi \<and> N \<le> length lphi \<and>
         (\<forall>n<N. \<exists>sc. softmax sc = Inr (phi' ! n) \<and> length sc = length (lphi ! n) \<and>
                   K \<le> length sc \<and>
                   (\<forall>k<K. phi_score psi D lpi lm lnu lw lbeta (xn ! n) k = Inr (sc ! k)) \<and>
                   (\<forall>m\<ge>K. sc ! m = lphi ! n ! m)) \<and>
         (\<forall>m\<ge>N. phi' ! m = lphi ! m)"
proof (rule foldE_rows[where N = N
      and Q = "\<lambda>n old r. \<exists>sc. softmax sc = Inr r \<and> length sc = length old \<and> K \<le> length sc \<and>
                 (\<forall>k<K. phi_score psi D lpi lm lnu lw lbeta (xn ! n) k = Inr (sc ! k)) \<and>
                 (\<forall>m\<ge>K. sc ! m = old ! m)"])
  show "foldE (\<lambda>n lp.
        bindE (getitem lp n) (\<lambda>row.
        bindE (getitem xn n) (\<lambda>x.
        bindE (phi_row psi K D lpi lm lnu lw lbeta x row) (\<lambda>row'.
        setitem lp n row')))) [0..<N] lphi = Inr phi'"
    using assms by (simp add: update_lambda_phi_def)
next
  fix n s s'
  assume "bindE (getitem s n) (\<lambda>row.
        bindE (getitem xn n) (\<lambda>x.
        bindE (phi_row psi K D lpi lm lnu lw lbeta x row) (\<lambda>row'.
        setitem s n row'))) = Inr s'"
  then obtain row' where r: "phi_row psi K D lpi lm lnu lw lbeta (xn ! n) (s ! n) = Inr row'"
     and n: "n < length s" and s': "s' = s[n := row']"
    by (auto simp: bindE_eq_Inr setitem_Inr getitem_Inr)
  from phi_row_scores[OF r] obtain sc where
    "softmax sc = Inr row'" "length sc = length (s ! n)" "K \<le> length (s ! n)"
    "\<forall>k<K. phi_score psi D lpi lm lnu lw lbeta (xn ! n) k = Inr (sc ! k)"
    "\<forall>m\<ge>K. sc ! m = s ! n ! m" by blast
  then have "\<exists>sc. softmax sc = Inr (s' ! n) \<and> length sc = length (s ! n) \<and> K \<le> length sc \<and>
                 (\<forall>k<K. phi_score psi D lpi lm lnu lw lbeta (xn ! n) k = Inr (sc ! k)) \<and>
                 (\<forall>m\<ge>K. sc ! m = s ! n ! m)"
    using n s' by (intro exI[of _ sc]) simp
  then show "length s' = length s \<and> n < length s \<and>
       (\<exists>sc. softmax sc = Inr (s' ! n) \<and> length sc = length (s ! n) \<and> K \<le> length sc \<and>
                 (\<forall>k<K. phi_score psi D lpi lm lnu lw lbeta (xn ! n) k = Inr (sc ! k)) \<and>
                 (\<forall>m\<ge>K. sc ! m = s ! n ! m)) \<and>
       (\<forall>m. m \<noteq> n \<longrightarrow> s' ! m = s ! m)"
    using n s' by simp
qed simp

lemma update_lambda_phi_row:
  assumes "update_lambda_phi psi lphi lpi lm lnu lw lbeta xn N K D = Inr phi'"
    and "n < N" and "length (lphi ! n) = K"
  shows "\<exists>sc. length sc = K \<and>
           (\<forall>k<K. phi_score psi D lpi lm lnu lw lbeta (xn ! n) k = Inr (sc ! k)) \<and>
           softmax sc = Inr (phi' ! n)"
  using update_lambda_phi_rows[OF assms(1)] assms(2,3) by force

lemma softmax_length: "softmax sc = Inr row \<Longrightarrow> length row = length sc \<and> sc \<noteq> []"
  by (auto simp: softmax_def Let_def split: if_splits)

lemma eps_eight: "(real K - 1) * float32_eps < 1 / 10 ^ 6" if "K \<le> 9"
proof -
  have "real K \<le> 9" using that by simp
  then have "(real K - 1) * float32_eps \<le> 8 * float32_eps"
    using float32_eps_pos by (intro mult_right_mono) auto
  also have "\<dots> < 1 / 10 ^ 6" by (simp add: float32_eps_def)
  finally show ?thesis .
qed

lemma softmax_finite_row:
  assumes "softmax sc = Inr row" and "set sc \<subseteq> range Fin"
  shows "\<exists>ps. row = map Fin ps \<and> length ps = length sc \<and>
           (\<forall>p \<in> set ps. 0 < p \<and> float32_eps / (real (length sc) + float32_eps) \<le> p) \<and>
           \<bar>sum_list ps - 1\<bar> \<le> (real (length sc) - 1) * float32_eps"
proof -
  from range_Fin_map[OF assms(2)] obtain xs where xs: "sc = map Fin xs" by blast
  from softmax_length[OF assms(1)] have ne: "xs \<noteq> []" using xs by auto
  from softmax_Fin_props[OF ne] obtain ys where
    y: "softmax (map Fin xs) = Inr (map Fin ys)" "length ys = length xs"
    "\<forall>p \<in> set ys. 0 < p \<and> float32_eps / (real (length xs) + float32_eps) \<le> p"
    "1 \<le> sum_list ys" "sum_list ys \<le> 1 + (real (length xs) - 1) * float32_eps"
    by blast
  from y(1) assms(1) xs have "row = map Fin ys" by simp
  moreover have "\<bar>sum_list ys - 1\<bar> \<le> (real (length sc) - 1) * float32_eps"
    using y(4,5) xs by simp
  ultimately show ?thesis using y(2,3) xs by (intro exI[of _ ys]) simp
qed

lemma softmax_finite_row_flt:
  assumes "softmax sc = Inr row" and "set sc \<subseteq> range Fin"
  shows "(\<forall>p \<in> set row. 0 < p) \<and>
         \<bar>sum_list row - 1\<bar> \<le> Fin ((real (length sc) - 1) * float32_eps) \<and>
         (length sc \<le> 9 \<longrightarrow> \<bar>sum_list row - 1\<bar> \<le> Fin (1 / 10 ^ 6))"
proof -
  from softmax_finite_row[OF assms] obtain ps where
    r: "row = map Fin ps" and
    pos: "\<forall>p \<in> set ps. 0 < p \<and> float32_eps / (real (length sc) + float32_eps) \<le> p" and
    s: "\<bar>sum_list ps - 1\<bar> \<le> (real (length sc) - 1) * float32_eps" by blast
  have a: "\<forall>p \<in> set row. 0 < p" unfolding r using pos by auto
  have b: "\<bar>sum_list row - 1\<bar> = Fin \<bar>sum_list ps - 1\<bar>" unfolding r by (simp add: sum_list_Fin)
  have c: "\<bar>sum_list ps - 1\<bar> \<le> 1 / 10 ^ 6" if "length sc \<le> 9"
    using s eps_eight[OF that] by linarith
  show ?thesis using a b s c by simp
qed

lemma softmax_log_finite:
  assumes "softmax sc = Inr row" and "set sc \<subseteq> range Fin" and "k < length sc"
  shows "\<exists>p. row ! k = Fin p \<and> float32_eps / (real (length sc) + float32_eps) \<le> p \<and> 0 < p \<and>
           np_log (row ! k) = Fin (ln p)"
proof -
  from softmax_finite_row[OF assms(1,2)] obtain ps where
    r: "row = map Fin ps" and l: "length ps = length sc" and
    pos: "\<forall>p \<in> set ps. 0 < p \<and> float32_eps / (real (length sc) + float32_eps) \<le> p"
    by blast
  have "ps ! k \<in> set ps" using assms(3) l by simp
  with pos have "0 < ps ! k \<and> float32_eps / (real (length sc) + float32_eps) \<le> ps ! k" by blast
  moreover have "row ! k = Fin (ps ! k)" using r assms(3) l by simp
  ultimately show ?thesis by (intro exI[of _ "ps ! k"]) simp
qed

text \<open>The rows written by \<^verbatim>\<open>init_kmeans\<close>.\<close>

lemma sum_list_update_real:
  fixes xs :: "real list"
  shows "i < length xs \<Longrightarrow> sum_list (xs[i := v]) = sum_list xs - xs ! i + v"
  by (induction xs arbitrary: i) (auto split: nat.splits)

lemma foldE_enumerate_labels:
  assumes "foldE (\<lambda>(i, lab) lp.
              bindE (getitem lp i) (\<lambda>row.
              bindE (setitem row lab v) (\<lambda>row'.
              setitem lp i row'))) (enumerate 0 labels) s0 = Inr s"
  shows "length s = length s0 \<and> length labels \<le> length s0 \<and>
         (\<forall>i<length labels. labels ! i < length (s0 ! i) \<and> s ! i = (s0 ! i)[labels ! i := v]) \<and>
         (\<forall>i\<ge>length labels. s ! i = s0 ! i)"
  using assms
proof (induction labels arbitrary: s rule: rev_induct)
  case Nil
  then show ?case by simp
next
  case (snoc x xs)
  let ?f = "\<lambda>(i, lab) lp.
              bindE (getitem lp i) (\<lambda>row.
              bindE (setitem row lab v) (\<lambda>row'.
              setitem lp i row'))"
  from snoc.prems obtain t where t: "foldE ?f (enumerate 0 xs) s0 = Inr t"
    and st: "?f (length xs, x) t = Inr s"
    by (auto simp: enumerate_append_eq foldE_append bindE_eq_Inr foldE_single)
  from snoc.IH[OF t] have IH: "length t = length s0" "length xs \<le> length s0"
    "\<forall>i<length xs. xs ! i < length (s0 ! i) \<and> t ! i = (s0 ! i)[xs ! i := v]"
    "\<forall>i\<ge>length xs. t ! i = s0 ! i" by auto
  from st have S: "length xs < length t" "x < length (t ! length xs)"
    "s = t[length xs := (t ! length xs)[x := v]]"
    by (auto simp: bindE_eq_Inr getitem_Inr setitem_Inr)
  have tn: "t ! length xs = s0 ! length xs" using IH(4) by simp
  show ?case using IH S tn by (auto simp: nth_append less_Suc_eq nth_list_update)
qed

lemma init_kmeans_rows:
  assumes ik: "init_kmeans kmeans xn N K = Inr phi"
    and lab: "\<forall>labels. kmeans K xn = Inr labels \<longrightarrow> length labels = N"
    and row: "row \<in> set phi"
  shows "2 \<le> K \<and> length row = nat K \<and> (\<forall>p \<in> set row. 0 < p) \<and>
         \<bar>sum_list row - 1\<bar> \<le> Fin (1 / 10 ^ 6)"
proof -
  let ?c = "(1 / 10) / (real_of_int K - 1)"
  let ?s0 = "replicate N (replicate (nat K) (Fin ?c))"
  from ik have K1: "K \<noteq> 1" and K0: "0 \<le> K"
    by (auto simp: init_kmeans_def split: if_splits)
  from ik K1 K0 obtain labels where km: "kmeans K xn = Inr labels" and
    f: "foldE (\<lambda>(i, lab) lp.
              bindE (getitem lp i) (\<lambda>row.
              bindE (setitem row lab (Fin (9 / 10))) (\<lambda>row'.
              setitem lp i row'))) (enumerate 0 labels) ?s0 = Inr phi"
    by (auto simp: init_kmeans_def bindE_eq_Inr split: if_splits)
  from lab km have ll: "length labels = N" by blast
  from foldE_enumerate_labels[OF f] ll have len: "length phi = N" and
    rows: "\<forall>i<N. labels ! i < length (?s0 ! i) \<and> phi ! i = (?s0 ! i)[labels ! i := Fin (9 / 10)]"
    by auto
  from row len obtain i where i: "i < N" "row = phi ! i" by (auto simp: in_set_conv_nth)
  with rows have l: "labels ! i < nat K"
    and r0: "row = (replicate (nat K) (Fin ?c))[labels ! i := Fin (9 / 10)]"
    by auto
  let ?ps = "(replicate (nat K) ?c)[labels ! i := 9 / 10]"
  have r: "row = map Fin ?ps" unfolding r0 by (simp add: map_update)
  from l K1 have K2: "2 \<le> K" by linarith
  then have cpos: "0 < ?c" by simp
  have "\<forall>p \<in> set ?ps. 0 < p"
  proof
    fix p assume "p \<in> set ?ps"
    then have "p \<in> insert (9 / 10) (set (replicate (nat K) ?c))"
      using set_update_subset_insert by fastforce
    then show "0 < p" using cpos by auto
  qed
  then have pos: "\<forall>p \<in> set row. 0 < p" unfolding r by auto
  have "sum_list ?ps = real (nat K) * ?c - ?c + 9 / 10"
    using l by (simp add: sum_list_update_real sum_list_replicate)
  also have "real (nat K) = real_of_int K" using K0 by simp
  also have "real_of_int K * ?c - ?c = (real_of_int K - 1) * ?c"
    by (simp only: left_diff_distrib mult_1_left)
  also have "\<dots> = 1 / 10" using K2 by simp
  finally have "sum_list ?ps = 1" by simp
  then have "\<bar>sum_list row - 1\<bar> = Fin 0" unfolding r by (simp add: sum_list_Fin)
  then have "\<bar>sum_list row - 1\<bar> \<le> Fin (1 / 10 ^ 6)" by simp
  then show ?thesis using K2 r pos by simp
qed

section \<open>Evaluation of loops over the components\<close>

lemma foldE_update:
  assumes step: "\<And>k r. k < K \<Longrightarrow> length r = length row \<Longrightarrow> r ! k = row ! k \<Longrightarrow>
                   f k r = Inr (r[k := g k])"
    and "M \<le> K" and "K \<le> length row"
  shows "foldE f [0..<M] row = Inr (map g [0..<M] @ drop M row)"
  using assms(2)
proof (induction M)
  case 0
  then show ?case by simp
next
  case (Suc M)
  then have M: "M < K" "M < length row" using assms(3) by auto
  let ?r = "map g [0..<M] @ drop M row"
  have d: "drop M row = row ! M # drop (Suc M) row" using M by (simp add: Cons_nth_drop_Suc)
  have l: "length ?r = length row" using M by simp
  have n: "?r ! M = row ! M" using M by (simp add: nth_append)
  have u: "?r[M := g M] = map g [0..<Suc M] @ drop (Suc M) row"
    by (simp add: d list_update_append)
  have "foldE f [0..<Suc M] row = bindE (foldE f [0..<M] row) (f M)" by (rule foldE_upt_Suc)
  also have "\<dots> = f M ?r" using Suc by simp
  also have "\<dots> = Inr (?r[M := g M])" by (rule step[OF M(1) l n])
  finally show ?case unfolding u .
qed

lemma foldE_update_all:
  assumes "\<And>k r. k < K \<Longrightarrow> length r = K \<Longrightarrow> r ! k = row ! k \<Longrightarrow> f k r = Inr (r[k := g k])"
    and "length row = K"
  shows "foldE f [0..<K] row = Inr (map g [0..<K])"
  using foldE_update[of K row f g K] assms by simp

lemma foldE_total:
  assumes "\<And>x s. x \<in> set xs \<Longrightarrow> \<exists>s'. f x s = Inr s'"
  shows "\<exists>s'. foldE f xs s = Inr s'"
  using assms
proof (induction xs arbitrary: s)
  case Nil
  then show ?case by simp
next
  case (Cons x xs)
  then obtain t where "f x s = Inr t" by (meson list.set_intros(1))
  moreover obtain s' where "foldE f xs t = Inr s'" using Cons by (meson list.set_intros(2))
  ultimately show ?case by simp
qed

text \<open>Determinant and inverse of a two-by-two matrix of finite entries.\<close>

lemma det2: "det [[Fin a, Fin b], [Fin c, Fin d]] = Inr (Fin (a * d - b * c))"
  by (simp add: np_defs numeral_2_eq_2 lessThan_Suc)

lemma inv2:
  assumes "a * d - b * c \<noteq> 0"
  shows "inv_np [[Fin a, Fin b], [Fin c, Fin d]] =
           Inr [[Fin (d / (a * d - b * c)), Fin (- b / (a * d - b * c))],
                [Fin (- c / (a * d - b * c)), Fin (a / (a * d - b * c))]]"
  using assms by (simp add: np_defs numeral_2_eq_2 lessThan_Suc upt_rec Let_def)

text \<open>
  The two terms of a score that come from the digamma function can be infinite or
  not-a-number; the other six are finite here.
\<close>

lemma score_shape:
  "u + Fin t1 - Fin t2 - Fin t3 - Fin t4 + Fin c + v - Fin t7
     = (u + v) + Fin (t1 - t2 - t3 - t4 + c - t7)"
  by (cases u; cases v) simp_all

section \<open>Evaluation of the run with ten components\<close>

lemma ten_draw_nth:
  "k < 10 \<Longrightarrow> ten_draw ! 0 ! k = Fin (if k = 0 then 1 / 100 else 11 / 100)"
  "k < 10 \<Longrightarrow> ten_draw ! Suc 0 ! k = Fin (if k = 0 then 19 / 100 else 9 / 100)"
  by (simp_all add: ten_draw_def)

lemma ten_draw_shape: "length ten_draw = 2" "shape1 K ten_draw = 10"
  "length (ten_draw ! 0) = 10" "length (ten_draw ! Suc 0) = 10"
  by (simp_all add: ten_draw_def shape1_def)

lemma ten_column:
  "k < 10 \<Longrightarrow> column 10 ten_draw k = Inr [ten_draw ! 0 ! k, ten_draw ! Suc 0 ! k]"
  by (simp add: column_def ten_draw_shape) (simp add: ten_draw_def)

lemma ten_pi:
  "update_lambda_pi 10 (replicate 10 (Fin 0)) ten_draw (replicate 10 (Fin 1))
     = Inr (map (\<lambda>k. Fin (6 / 5)) [0..<10])"
  unfolding update_lambda_pi_def
proof (rule foldE_update_all)
  fix k r assume "k < (10::nat)" "length r = 10" "r ! k = replicate 10 (Fin 0) ! k"
  then show "bindE (getitem (replicate 10 (Fin 1)) k)
          (\<lambda>a. bindE (column 10 ten_draw k) (\<lambda>c. setitem r k (a + sum_list c))) =
         Inr (r[k := Fin (6 / 5)])"
    by (simp add: getitem_def setitem_def ten_column ten_draw_nth)
qed simp

lemma ten_Nks: "sum_axis0 10 ten_draw = map (\<lambda>k. Fin (1 / 5)) [0..<10]"
  unfolding sum_axis0_def ten_draw_shape
  by (rule map_cong) (simp_all add: ten_draw_def)

lemma ten_beta:
  "update_lambda_beta 10 (replicate 10 (Fin 0)) (Fin (7 / 10)) (map (\<lambda>k. Fin (1 / 5)) [0..<10])
     = Inr (map (\<lambda>k. Fin (9 / 10)) [0..<10])"
  unfolding update_lambda_beta_def
  by (rule foldE_update_all) (simp_all add: getitem_def setitem_def)

lemma ten_nu:
  "update_lambda_nu 10 (replicate 10 (Fin 0)) (Fin 3) (map (\<lambda>k. Fin (1 / 5)) [0..<10])
     = Inr (map (\<lambda>k. Fin (16 / 5)) [0..<10])"
  unfolding update_lambda_nu_def
  by (rule foldE_update_all) (simp_all add: getitem_def setitem_def)

lemma ten_points:
  "k < 10 \<Longrightarrow> weighted_points ten_draw [[Fin 0, Fin 0], [Fin 10, Fin 0]] 2 k
      = Inr [Fin (if k = 0 then 19 / 10 else 9 / 10), Fin 0]"
  by (simp add: weighted_points_def numeral_2_eq_2 getitem2_def getitem_def ten_draw_shape
      ten_draw_nth np_iadd1_def scale1_def stretch1_def
      ten_draw_shape[unfolded numeral_2_eq_2])

lemma ten_m:
  "update_lambda_m 10 (replicate 10 [Fin 0, Fin 0]) ten_draw (map (\<lambda>k. Fin (9 / 10)) [0..<10])
       [Fin 0, Fin 0] (Fin (7 / 10)) [[Fin 0, Fin 0], [Fin 10, Fin 0]] 2
     = Inr (map (\<lambda>k. [Fin (if k = 0 then 19 / 9 else 1), Fin 0]) [0..<10])"
  unfolding update_lambda_m_def
proof (rule foldE_update_all)
  fix k r assume "k < (10::nat)" "length r = 10" "r ! k = replicate 10 [Fin 0, Fin 0] ! k"
  then show "bindE (weighted_points ten_draw [[Fin 0, Fin 0], [Fin 10, Fin 0]] 2 k)
          (\<lambda>aux. bindE (np_binop1 (+) (scale1 (Fin (7 / 10)) [Fin 0, Fin 0]) aux)
              (\<lambda>s. bindE (getitem (map (\<lambda>k. Fin (9 / 10)) [0..<10]) k)
                  (\<lambda>b. bindE (getitem r k)
                      (\<lambda>old. bindE (np_assign1 (length old) (np_div1 s b))
                          (\<lambda>row. setitem r k row))))) =
         Inr (r[k := [Fin (if k = 0 then 19 / 9 else 1), Fin 0]])"
    by (simp add: ten_points np_defs)
qed simp

lemma ten_outers:
  "k < 10 \<Longrightarrow> weighted_outers ten_draw
        [[[Fin 0, Fin 0], [Fin 0, Fin 0]], [[Fin 100, Fin 0], [Fin 0, Fin 0]]] 2 k
      = Inr [[Fin (if k = 0 then 19 else 9), Fin 0], [Fin 0, Fin 0]]"
  by (simp add: weighted_outers_def numeral_2_eq_2 getitem2_def getitem_def ten_draw_shape
      ten_draw_nth np_iadd2_def scale2_def scale1_def stretch2_def stretch1_def ncols_def
      ten_draw_shape[unfolded numeral_2_eq_2])

lemma ten_W:
  "update_lambda_W (replicate 10 [[Fin 0, Fin 0], [Fin 0, Fin 0]]) ten_draw
       (map (\<lambda>k. Fin (9 / 10)) [0..<10])
       (map (\<lambda>k. [Fin (if k = 0 then 19 / 9 else 1), Fin 0]) [0..<10])
       [[Fin 20, Fin 30], [Fin 25, Fin 40]] (Fin (7 / 10)) [Fin 0, Fin 0]
       [[[Fin 0, Fin 0], [Fin 0, Fin 0]], [[Fin 100, Fin 0], [Fin 0, Fin 0]]] 10 2
     = Inr (map (\<lambda>k. [[Fin (if k = 0 then 3149 / 90 else 281 / 10), Fin 30], [Fin 25, Fin 40]])
             [0..<10])"
  unfolding update_lambda_W_def
proof (rule foldE_update_all)
  fix k r assume "k < (10::nat)" "length r = 10"
    "r ! k = replicate 10 [[Fin 0, Fin 0], [Fin 0, Fin 0]] ! k"
  then show "bindE (weighted_outers ten_draw
             [[[Fin 0, Fin 0], [Fin 0, Fin 0]], [[Fin 100, Fin 0], [Fin 0, Fin 0]]] 2 k)
          (\<lambda>aux. bindE (np_binop2 (+) [[Fin 20, Fin 30], [Fin 25, Fin 40]]
                 (outer (scale1 (Fin (7 / 10)) [Fin 0, Fin 0]) [Fin 0, Fin 0]))
              (\<lambda>s1. bindE (np_binop2 (+) s1 aux)
                  (\<lambda>s2. bindE (getitem (map (\<lambda>k. Fin (9 / 10)) [0..<10]) k)
                      (\<lambda>b. bindE (getitem (map (\<lambda>k. [Fin (if k = 0 then 19 / 9 else 1), Fin 0])
                               [0..<10]) k)
                          (\<lambda>m. bindE (np_binop2 (-) s2 (outer (scale1 b m) m))
                              (\<lambda>s3. bindE (getitem r k)
                                  (\<lambda>old. bindE (np_assign2 (length old) (ncols old) s3)
                                      (\<lambda>blk. setitem r k blk)))))))) =
         Inr (r[k := [[Fin (if k = 0 then 3149 / 90 else 281 / 10), Fin 30], [Fin 25, Fin 40]]])"
    by (simp add: ten_outers np_defs)
qed simp

lemma upt2: "[0..<2] = [0, Suc 0]" by (simp add: upt_rec)

lemma ten_inv:
  "inv_np [[Fin (3149 / 90), Fin 30], [Fin 25, Fin 40]]
     = Inr [[Fin (180 / 2923), Fin (- 135 / 2923)], [Fin (- 225 / 5846), Fin (3149 / 58460)]]"
  "inv_np [[Fin (281 / 10), Fin 30], [Fin 25, Fin 40]]
     = Inr [[Fin (20 / 187), Fin (- 15 / 187)], [Fin (- 25 / 374), Fin (281 / 3740)]]"
  by (simp_all add: inv2)

lemma ten_det:
  "det [[Fin (3149 / 90), Fin 30], [Fin 25, Fin 40]] = Inr (Fin (5846 / 9))"
  "det [[Fin (281 / 10), Fin 30], [Fin 25, Fin 40]] = Inr (Fin 374)"
  by (simp_all add: det2)

lemma ten_mean_term:
  assumes "k < 10"
  shows "phi_mean_term [Fin 10, Fin 0] (map (\<lambda>k. Fin (16 / 5)) [0..<10])
     (map (\<lambda>k. [[Fin (if k = 0 then 3149 / 90 else 281 / 10), Fin 30], [Fin 25, Fin 40]]) [0..<10])
     (map (\<lambda>k. [Fin (if k = 0 then 19 / 9 else 1), Fin 0]) [0..<10])
     (map (\<lambda>k. Fin (9 / 10)) [0..<10]) k
   = Inr (Fin (if k = 0 then 12160 / 2923 else 640 / 187))"
  unfolding phi_mean_term_def using assms
  by (simp add: getitem_def ten_inv dot_mv_def dot_vv_def scale2_def scale1_def ncols_def
      lessThan2)

lemma ten_prec_term:
  assumes "k < 10"
  shows "phi_prec_term [Fin 10, Fin 0] (map (\<lambda>k. Fin (16 / 5)) [0..<10])
     (map (\<lambda>k. [[Fin (if k = 0 then 3149 / 90 else 281 / 10), Fin 30], [Fin 25, Fin 40]]) [0..<10])
     (map (\<lambda>k. [Fin (if k = 0 then 19 / 9 else 1), Fin 0]) [0..<10])
     (map (\<lambda>k. Fin (9 / 10)) [0..<10]) k
   = Inr (Fin (if k = 0 then 28800 / 2923 else 3200 / 187))"
  unfolding phi_prec_term_def using assms
  by (simp add: getitem_def ten_inv dot_mm_def outer_def trace_def scale2_def scale1_def ncols_def
      lessThan2 upt2)

lemma ten_quad_term:
  assumes "k < 10"
  shows "phi_quad_term (map (\<lambda>k. Fin (16 / 5)) [0..<10])
     (map (\<lambda>k. [[Fin (if k = 0 then 3149 / 90 else 281 / 10), Fin 30], [Fin 25, Fin 40]]) [0..<10])
     (map (\<lambda>k. [Fin (if k = 0 then 19 / 9 else 1), Fin 0]) [0..<10]) k
   = Inr (Fin (if k = 0 then 11552 / 26307 else 32 / 187))"
  unfolding phi_quad_term_def using assms
  by (simp add: getitem_def ten_inv dot_vm_def dot_vv_def scale1_def ncols_def
      lessThan2 upt2)

lemma ten_beta_term:
  "k < 10 \<Longrightarrow> phi_beta_term 2 (map (\<lambda>k. Fin (9 / 10)) [0..<10]) k = Inr (Fin (10 / 9))"
  by (simp add: phi_beta_term_def getitem_def)

lemma ten_logdet_term:
  "k < 10 \<Longrightarrow> phi_logdet_term
     (map (\<lambda>k. [[Fin (if k = 0 then 3149 / 90 else 281 / 10), Fin 30], [Fin 25, Fin 40]]) [0..<10]) k
   = Inr (Fin ((1 / 2) * ln (if k = 0 then 5846 / 9 else 374)))"
  unfolding phi_logdet_term_def
  by (simp add: getitem_def ten_det)

lemma ten_mean_term0:
  assumes "k < 10"
  shows "phi_mean_term [Fin 0, Fin 0] (map (\<lambda>k. Fin (16 / 5)) [0..<10])
     (map (\<lambda>k. [[Fin (if k = 0 then 3149 / 90 else 281 / 10), Fin 30], [Fin 25, Fin 40]]) [0..<10])
     (map (\<lambda>k. [Fin (if k = 0 then 19 / 9 else 1), Fin 0]) [0..<10])
     (map (\<lambda>k. Fin (9 / 10)) [0..<10]) k
   = Inr (Fin 0)"
  unfolding phi_mean_term_def using assms
  by (simp add: getitem_def ten_inv dot_mv_def dot_vv_def scale2_def scale1_def ncols_def
      lessThan2)

lemma ten_prec_term0:
  assumes "k < 10"
  shows "phi_prec_term [Fin 0, Fin 0] (map (\<lambda>k. Fin (16 / 5)) [0..<10])
     (map (\<lambda>k. [[Fin (if k = 0 then 3149 / 90 else 281 / 10), Fin 30], [Fin 25, Fin 40]]) [0..<10])
     (map (\<lambda>k. [Fin (if k = 0 then 19 / 9 else 1), Fin 0]) [0..<10])
     (map (\<lambda>k. Fin (9 / 10)) [0..<10]) k
   = Inr (Fin 0)"
  unfolding phi_prec_term_def using assms
  by (simp add: getitem_def ten_inv dot_mm_def outer_def trace_def scale2_def scale1_def ncols_def
      lessThan2 upt2)

lemma sum_list_const_Fin: "sum_list (map (\<lambda>k. Fin c) xs) = Fin (real (length xs) * c)"
  by (simp add: sum_list_Fin_map sum_list_triv)

lemma ten_dirichlet:
  "k < 10 \<Longrightarrow> dirichlet_expectation psi (map (\<lambda>k. Fin (6 / 5)) [0..<10]) k
      = Inr (psi (Fin (6 / 5) + Fin float32_eps) - psi (Fin 12))"
  by (simp add: dirichlet_expectation_def getitem_def sum_list_const_Fin)

lemma ten_psi_term:
  "k < 10 \<Longrightarrow> phi_psi_term psi 2 (map (\<lambda>k. Fin (16 / 5)) [0..<10]) k
      = Inr (Fin (1 / 2) * psi_sum psi 2 (Fin (16 / 5)))"
  by (simp add: phi_psi_term_def getitem_def)

lemma ten_score:
  assumes "k < 10" and "n < 2"
  shows "phi_score psi 2 (map (\<lambda>k. Fin (6 / 5)) [0..<10])
     (map (\<lambda>k. [Fin (if k = 0 then 19 / 9 else 1), Fin 0]) [0..<10])
     (map (\<lambda>k. Fin (16 / 5)) [0..<10])
     (map (\<lambda>k. [[Fin (if k = 0 then 3149 / 90 else 281 / 10), Fin 30], [Fin 25, Fin 40]]) [0..<10])
     (map (\<lambda>k. Fin (9 / 10)) [0..<10]) ([[Fin 0, Fin 0], [Fin 10, Fin 0]] ! n) k
   = Inr (ten_base psi + Fin (ten_q n k))"
proof -
  from assms(2) consider "n = 0" | "n = Suc 0" by linarith
  then show ?thesis
  proof cases
    case 1
    show ?thesis
      unfolding phi_score_def 1 using assms(1)
      apply (simp only: nth_Cons_0 ten_dirichlet ten_mean_term0 ten_prec_term0 ten_beta_term
          ten_quad_term ten_psi_term ten_logdet_term bindE_Inr)
      apply (simp add: ten_base_def ten_q_def score_shape)
      done
  next
    case 2
    show ?thesis
      unfolding phi_score_def 2 using assms(1)
      apply (simp only: nth_Cons_Suc nth_Cons_0 ten_dirichlet ten_mean_term ten_prec_term
          ten_beta_term ten_quad_term ten_psi_term ten_logdet_term bindE_Inr)
      apply (simp add: ten_base_def ten_q_def score_shape)
      done
  qed
qed

lemma foldE_scores:
  assumes "\<forall>k<K. sc k = Inr (g k)" and "length row = K"
  shows "foldE (\<lambda>k r. bindE (sc k) (\<lambda>s. setitem r k s)) [0..<K] row = Inr (map g [0..<K])"
proof (rule foldE_update_all)
  fix k r assume "k < K" "length r = K" "r ! k = row ! k"
  then show "bindE (sc k) (\<lambda>s. setitem r k s) = Inr (r[k := g k])"
    using assms(1) by (simp add: setitem_def)
qed (rule assms(2))

lemma phi_row_eq:
  assumes "\<forall>k<K. phi_score psi D lpi lm lnu lw lbeta x k = Inr (g k)" and "length row = K"
  shows "phi_row psi K D lpi lm lnu lw lbeta x row = softmax (map g [0..<K])"
  using foldE_scores[OF assms] by (simp add: phi_row_def)

lemma softmax_total: "x \<noteq> [] \<Longrightarrow> \<exists>r. softmax x = Inr r \<and> length r = length x"
  by (simp add: softmax_def Let_def)

lemma ten_phi:
  "\<exists>r0 r1. softmax (map (\<lambda>k. ten_base psi + Fin (ten_q 0 k)) [0..<10]) = Inr r0 \<and>
           softmax (map (\<lambda>k. ten_base psi + Fin (ten_q 1 k)) [0..<10]) = Inr r1 \<and>
           length r0 = 10 \<and> length r1 = 10 \<and>
     update_lambda_phi psi ten_draw (map (\<lambda>k. Fin (6 / 5)) [0..<10])
       (map (\<lambda>k. [Fin (if k = 0 then 19 / 9 else 1), Fin 0]) [0..<10])
       (map (\<lambda>k. Fin (16 / 5)) [0..<10])
       (map (\<lambda>k. [[Fin (if k = 0 then 3149 / 90 else 281 / 10), Fin 30], [Fin 25, Fin 40]])
          [0..<10])
       (map (\<lambda>k. Fin (9 / 10)) [0..<10]) [[Fin 0, Fin 0], [Fin 10, Fin 0]] 2 10 2
     = Inr [r0, r1]"
proof -
  let ?lpi = "map (\<lambda>k. Fin (6 / 5)) [0..<10]"
  let ?lm = "map (\<lambda>k. [Fin (if k = 0 then 19 / 9 else 1), Fin 0]) [0..<10]"
  let ?lnu = "map (\<lambda>k. Fin (16 / 5)) [0..<10]"
  let ?lw = "map (\<lambda>k. [[Fin (if k = 0 then 3149 / 90 else 281 / 10), Fin 30], [Fin 25, Fin 40]])
          [0..<10]"
  let ?lb = "map (\<lambda>k. Fin (9 / 10)) [0..<10]"
  let ?xn = "[[Fin 0, Fin 0], [Fin 10, Fin 0]]"
  obtain r0 where r0: "softmax (map (\<lambda>k. ten_base psi + Fin (ten_q 0 k)) [0..<10]) = Inr r0"
    "length r0 = 10" using softmax_total[of "map (\<lambda>k. ten_base psi + Fin (ten_q 0 k)) [0..<10]"]
    by auto
  obtain r1 where r1: "softmax (map (\<lambda>k. ten_base psi + Fin (ten_q 1 k)) [0..<10]) = Inr r1"
    "length r1 = 10" using softmax_total[of "map (\<lambda>k. ten_base psi + Fin (ten_q 1 k)) [0..<10]"]
    by auto
  have row: "phi_row psi 10 2 ?lpi ?lm ?lnu ?lw ?lb (?xn ! n) row
               = softmax (map (\<lambda>k. ten_base psi + Fin (ten_q n k)) [0..<10])"
    if "n < 2" "length row = 10" for n row
    by (rule phi_row_eq) (use that ten_score in auto)
  have a: "phi_row psi 10 2 ?lpi ?lm ?lnu ?lw ?lb [Fin 0, Fin 0] (ten_draw ! 0) = Inr r0"
    using row[of 0 "ten_draw ! 0"] r0 by (simp add: ten_draw_shape)
  have b: "phi_row psi 10 2 ?lpi ?lm ?lnu ?lw ?lb [Fin 10, Fin 0] (ten_draw ! Suc 0) = Inr r1"
    using row[of 1 "ten_draw ! Suc 0"] r1 by (simp add: ten_draw_shape)
  have t: "ten_draw = [ten_draw ! 0, ten_draw ! Suc 0]" by (simp add: ten_draw_def)
  have "update_lambda_phi psi [ten_draw ! 0, ten_draw ! Suc 0] ?lpi ?lm ?lnu ?lw ?lb ?xn 2 10 2
          = Inr [r0, r1]"
    by (simp add: update_lambda_phi_def numeral_2_eq_2 getitem_def setitem_def
        a[unfolded numeral_2_eq_2] b[unfolded numeral_2_eq_2])
  then show ?thesis using r0 r1 t by auto
qed

lemma ten_init:
  "initial_state kmeans (\<lambda>alpha N. Inr ten_draw) ten_cfg ten_xn 2 =
     Inr \<lparr>st_pi = replicate 10 (Fin 0), st_beta = replicate 10 (Fin 0),
          st_nu = replicate 10 (Fin 0), st_m = replicate 10 [Fin 0, Fin 0],
          st_W = replicate 10 [[Fin 0, Fin 0], [Fin 0, Fin 0]], st_phi = ten_draw\<rparr>"
  by (simp add: initial_state_def ten_cfg_def np_zeros_def numeral_2_eq_2)

lemma ten_sweep:
  "\<exists>r0 r1. softmax (map (\<lambda>k. ten_base psi + Fin (ten_q 0 k)) [0..<10]) = Inr r0 \<and>
           softmax (map (\<lambda>k. ten_base psi + Fin (ten_q 1 k)) [0..<10]) = Inr r1 \<and>
           length r0 = 10 \<and> length r1 = 10 \<and>
     sweep psi 10 2 2 (main_priors 10) [[Fin 0, Fin 0], [Fin 10, Fin 0]]
       [[[Fin 0, Fin 0], [Fin 0, Fin 0]], [[Fin 100, Fin 0], [Fin 0, Fin 0]]]
       \<lparr>st_pi = replicate 10 (Fin 0), st_beta = replicate 10 (Fin 0),
          st_nu = replicate 10 (Fin 0), st_m = replicate 10 [Fin 0, Fin 0],
          st_W = replicate 10 [[Fin 0, Fin 0], [Fin 0, Fin 0]], st_phi = ten_draw\<rparr>
     = Inr (ten_st1 [r0, r1], map (\<lambda>k. Fin (1 / 5)) [0..<10])"
proof -
  from ten_phi[of psi] obtain r0 r1 where
    r: "softmax (map (\<lambda>k. ten_base psi + Fin (ten_q 0 k)) [0..<10]) = Inr r0"
       "softmax (map (\<lambda>k. ten_base psi + Fin (ten_q 1 k)) [0..<10]) = Inr r1"
       "length r0 = 10" "length r1 = 10" and
    u: "update_lambda_phi psi ten_draw (map (\<lambda>k. Fin (6 / 5)) [0..<10])
       (map (\<lambda>k. [Fin (if k = 0 then 19 / 9 else 1), Fin 0]) [0..<10])
       (map (\<lambda>k. Fin (16 / 5)) [0..<10])
       (map (\<lambda>k. [[Fin (if k = 0 then 3149 / 90 else 281 / 10), Fin 30], [Fin 25, Fin 40]])
          [0..<10])
       (map (\<lambda>k. Fin (9 / 10)) [0..<10]) [[Fin 0, Fin 0], [Fin 10, Fin 0]] 2 10 2
     = Inr [r0, r1]" by blast
  have "sweep psi 10 2 2 (main_priors 10) [[Fin 0, Fin 0], [Fin 10, Fin 0]]
       [[[Fin 0, Fin 0], [Fin 0, Fin 0]], [[Fin 100, Fin 0], [Fin 0, Fin 0]]]
       \<lparr>st_pi = replicate 10 (Fin 0), st_beta = replicate 10 (Fin 0),
          st_nu = replicate 10 (Fin 0), st_m = replicate 10 [Fin 0, Fin 0],
          st_W = replicate 10 [[Fin 0, Fin 0], [Fin 0, Fin 0]], st_phi = ten_draw\<rparr>
     = Inr (ten_st1 [r0, r1], map (\<lambda>k. Fin (1 / 5)) [0..<10])"
    unfolding sweep_def main_priors_def Let_def
    apply (simp only: vstate.simps priors.simps nat_numeral flt_zero flt_one flt_numeral
        ten_Nks ten_pi bindE_Inr)
    apply (simp only: ten_beta ten_nu bindE_Inr divide_flt.simps)
    apply (simp add: ten_beta ten_nu ten_m ten_W u ten_st1_def)
    done
  with r show ?thesis by blast
qed

lemma ten_niw:
  assumes "k < 10"
  shows "\<exists>a b c d e f s2 s3. NIW_sufficient_statistics psi k 2 (map (\<lambda>k. Fin (16 / 5)) [0..<10])
     (map (\<lambda>k. [[Fin (if k = 0 then 3149 / 90 else 281 / 10), Fin 30], [Fin 25, Fin 40]]) [0..<10])
     (map (\<lambda>k. [Fin (if k = 0 then 19 / 9 else 1), Fin 0]) [0..<10])
     (map (\<lambda>k. Fin (9 / 10)) [0..<10])
   = Inr ([a, b], [[c, d], [e, f]], s2, s3)"
  unfolding NIW_sufficient_statistics_def using assms
  by (simp add: getitem_def ten_inv ten_det dot_mv_def dot_vm_def dot_vv_def scale2_def
      scale1_def ncols_def upt2)

lemma ten_elbo_component:
  assumes "k < 10" and "length r0 = 10" and "length r1 = 10"
  shows "\<exists>acc'. elbo_component psi gammaln mgl 10 [r0, r1] (map (\<lambda>k. Fin (6 / 5)) [0..<10])
     (map (\<lambda>k. [Fin (if k = 0 then 19 / 9 else 1), Fin 0]) [0..<10])
     (map (\<lambda>k. [[Fin (if k = 0 then 3149 / 90 else 281 / 10), Fin 30], [Fin 25, Fin 40]]) [0..<10])
     (map (\<lambda>k. Fin (9 / 10)) [0..<10]) (map (\<lambda>k. Fin (16 / 5)) [0..<10])
     (replicate 10 (Fin 1)) (Fin 3) (Fin (7 / 10)) [Fin 0, Fin 0]
     [[Fin 20, Fin 30], [Fin 25, Fin 40]] [[Fin 0, Fin 0], [Fin 10, Fin 0]]
     [[[Fin 0, Fin 0], [Fin 0, Fin 0]], [[Fin 100, Fin 0], [Fin 0, Fin 0]]] 2 2
     (map (\<lambda>k. Fin (1 / 5)) [0..<10]) k acc = Inr acc'"
proof -
  obtain a b c d e f s2 s3 where n: "NIW_sufficient_statistics psi k 2
     (map (\<lambda>k. Fin (16 / 5)) [0..<10])
     (map (\<lambda>k. [[Fin (if k = 0 then 3149 / 90 else 281 / 10), Fin 30], [Fin 25, Fin 40]]) [0..<10])
     (map (\<lambda>k. [Fin (if k = 0 then 19 / 9 else 1), Fin 0]) [0..<10])
     (map (\<lambda>k. Fin (9 / 10)) [0..<10])
   = Inr ([a, b], [[c, d], [e, f]], s2, s3)"
    using ten_niw[OF assms(1)] by blast
  obtain elbop elboq where acc: "acc = (elbop, elboq)" by (cases acc)
  have wp: "weighted_points [r0, r1] [[Fin 0, Fin 0], [Fin 10, Fin 0]] 2 k
      = Inr [Fin 0 + r0 ! k * Fin 0 + r1 ! k * Fin 10, Fin 0 + r0 ! k * Fin 0 + r1 ! k * Fin 0]"
    using assms by (simp add: weighted_points_def numeral_2_eq_2 getitem2_def getitem_def
        np_iadd1_def scale1_def stretch1_def)
  have wo: "\<exists>a b c d. weighted_outers [r0, r1]
        [[[Fin 0, Fin 0], [Fin 0, Fin 0]], [[Fin 100, Fin 0], [Fin 0, Fin 0]]] 2 k
      = Inr [[a, b], [c, d]]"
    using assms by (simp add: weighted_outers_def numeral_2_eq_2 getitem2_def getitem_def
        np_iadd2_def scale2_def scale1_def stretch2_def stretch1_def ncols_def)
  then obtain wa wb wc wd where wo': "weighted_outers [r0, r1]
        [[[Fin 0, Fin 0], [Fin 0, Fin 0]], [[Fin 100, Fin 0], [Fin 0, Fin 0]]] 2 k
      = Inr [[wa, wb], [wc, wd]]" by blast
  have col: "column 10 [r0, r1] k = Inr [r0 ! k, r1 ! k]"
    using assms by (simp add: column_def shape1_def)
  show ?thesis
    unfolding elbo_component_def acc using assms(1)
    by (simp add: wp wo' col n ten_det getitem_def dirichlet_expectation_def multigammaln_def
        np_binop1_def np_binop2_def compat_def bdim_def stretch1_def stretch2_def ncols_def
        scale1_def outer_def dot_vv_def dot_mm_def transp_def upt2)
qed

lemma ten_elbo:
  assumes "length r0 = 10" and "length r1 = 10"
  shows "\<exists>lb. elbo psi gammaln mgl 10 [r0, r1] (map (\<lambda>k. Fin (6 / 5)) [0..<10])
     (map (\<lambda>k. [Fin (if k = 0 then 19 / 9 else 1), Fin 0]) [0..<10])
     (map (\<lambda>k. [[Fin (if k = 0 then 3149 / 90 else 281 / 10), Fin 30], [Fin 25, Fin 40]]) [0..<10])
     (map (\<lambda>k. Fin (9 / 10)) [0..<10]) (map (\<lambda>k. Fin (16 / 5)) [0..<10])
     (replicate 10 (Fin 1)) (Fin 3) (Fin (7 / 10)) [Fin 0, Fin 0]
     [[Fin 20, Fin 30], [Fin 25, Fin 40]] [[Fin 0, Fin 0], [Fin 10, Fin 0]]
     [[[Fin 0, Fin 0], [Fin 0, Fin 0]], [[Fin 100, Fin 0], [Fin 0, Fin 0]]] 2 2
     (map (\<lambda>k. Fin (1 / 5)) [0..<10]) = Inr lb"
proof -
  let ?f = "elbo_component psi gammaln mgl 10 [r0, r1] (map (\<lambda>k. Fin (6 / 5)) [0..<10])
     (map (\<lambda>k. [Fin (if k = 0 then 19 / 9 else 1), Fin 0]) [0..<10])
     (map (\<lambda>k. [[Fin (if k = 0 then 3149 / 90 else 281 / 10), Fin 30], [Fin 25, Fin 40]]) [0..<10])
     (map (\<lambda>k. Fin (9 / 10)) [0..<10]) (map (\<lambda>k. Fin (16 / 5)) [0..<10])
     (replicate 10 (Fin 1)) (Fin 3) (Fin (7 / 10)) [Fin 0, Fin 0]
     [[Fin 20, Fin 30], [Fin 25, Fin 40]] [[Fin 0, Fin 0], [Fin 10, Fin 0]]
     [[[Fin 0, Fin 0], [Fin 0, Fin 0]], [[Fin 100, Fin 0], [Fin 0, Fin 0]]] 2 2
     (map (\<lambda>k. Fin (1 / 5)) [0..<10])"
  obtain acc0 where i: "elbo_init mgl 10 (Fin 3) (Fin (7 / 10)) [[Fin 20, Fin 30], [Fin 25, Fin 40]]
      2 2 = Inr acc0"
    by (simp add: elbo_init_def multigammaln_def det0)
  have "\<exists>acc'. foldE ?f [0..<10] acc0 = Inr acc'"
    by (rule foldE_total) (use ten_elbo_component[OF _ assms] in auto)
  then obtain acc' where f: "foldE ?f [0..<10] acc0 = Inr acc'" by blast
  show ?thesis unfolding elbo_def i bindE_Inr f by (cases acc') simp
qed

lemma ten_run:
  "\<exists>r0 r1 lb. softmax (map (\<lambda>k. ten_base psi + Fin (ten_q 0 k)) [0..<10]) = Inr r0 \<and>
       softmax (map (\<lambda>k. ten_base psi + Fin (ten_q 1 k)) [0..<10]) = Inr r1 \<and>
       main psi gammaln mgl kmeans (\<lambda>alpha N. Inr ten_draw) ten_cfg ten_xn 2 =
         Inr \<lparr>final = ten_st1 [r0, r1], lbs = [lb], n_iters = 1, left_by = RangeExhausted\<rparr>"
proof -
  let ?xn = "[[Fin 0, Fin 0], [Fin 10, Fin 0]]"
  let ?xx = "[[[Fin 0, Fin 0], [Fin 0, Fin 0]], [[Fin 100, Fin 0], [Fin 0, Fin 0]]]"
  let ?st0 = "\<lparr>st_pi = replicate 10 (Fin 0), st_beta = replicate 10 (Fin 0),
          st_nu = replicate 10 (Fin 0), st_m = replicate 10 [Fin 0, Fin 0],
          st_W = replicate 10 [[Fin 0, Fin 0], [Fin 0, Fin 0]], st_phi = ten_draw\<rparr>"
  let ?step = "sweep_elbo psi gammaln mgl 10 2 2 (main_priors 10) ?xn ?xx"
  from ten_sweep[of psi] obtain r0 r1 where
    r: "softmax (map (\<lambda>k. ten_base psi + Fin (ten_q 0 k)) [0..<10]) = Inr r0"
       "softmax (map (\<lambda>k. ten_base psi + Fin (ten_q 1 k)) [0..<10]) = Inr r1"
       "length r0 = 10" "length r1 = 10" and
    sw: "sweep psi 10 2 2 (main_priors 10) ?xn ?xx ?st0
           = Inr (ten_st1 [r0, r1], map (\<lambda>k. Fin (1 / 5)) [0..<10])" by blast
  from ten_elbo[OF r(3,4), of psi gammaln mgl] obtain lb where
    lb: "elbo psi gammaln mgl 10 [r0, r1] (map (\<lambda>k. Fin (6 / 5)) [0..<10])
     (map (\<lambda>k. [Fin (if k = 0 then 19 / 9 else 1), Fin 0]) [0..<10])
     (map (\<lambda>k. [[Fin (if k = 0 then 3149 / 90 else 281 / 10), Fin 30], [Fin 25, Fin 40]]) [0..<10])
     (map (\<lambda>k. Fin (9 / 10)) [0..<10]) (map (\<lambda>k. Fin (16 / 5)) [0..<10])
     (replicate 10 (Fin 1)) (Fin 3) (Fin (7 / 10)) [Fin 0, Fin 0]
     [[Fin 20, Fin 30], [Fin 25, Fin 40]] ?xn ?xx 2 2
     (map (\<lambda>k. Fin (1 / 5)) [0..<10]) = Inr lb" by blast
  have step: "?step ?st0 = Inr (ten_st1 [r0, r1], lb)"
    unfolding sweep_elbo_def sw bindE_Inr
    by (simp add: ten_st1_def main_priors_def lb)
  have i1: "iterate ?step (Suc 0) (Suc 0) (ten_st1 [r0, r1]) [lb] (Suc 0) =
      Inr \<lparr>final = ten_st1 [r0, r1], lbs = [lb], n_iters = Suc 0, left_by = RangeExhausted\<rparr>"
    by (subst iterate.simps) simp
  have i0: "iterate ?step (Suc 0) 0 ?st0 [] 0 =
      Inr \<lparr>final = ten_st1 [r0, r1], lbs = [lb], n_iters = Suc 0, left_by = RangeExhausted\<rparr>"
    by (subst iterate.simps) (simp add: step break_condition_def i1)
  have "main psi gammaln mgl kmeans (\<lambda>alpha N. Inr ten_draw) ten_cfg ten_xn 2 =
         Inr \<lparr>final = ten_st1 [r0, r1], lbs = [lb], n_iters = 1, left_by = RangeExhausted\<rparr>"
    unfolding main_def ten_init bindE_Inr
    by (simp add: ten_cfg_def ten_xn_def outer_def i0 numeral_2_eq_2[symmetric])
  with r show ?thesis by blast
qed

text \<open>The row of the second point: the first component leads by more than 7.\<close>

lemma exp_seven: "exp (- 7 :: real) \<le> 1 / 128"
proof -
  have "(2::real) \<le> exp 1" using exp_ge_add_one_self[of "1::real"] by simp
  then have "(2::real) ^ 7 \<le> exp 1 ^ 7" by (intro power_mono) simp_all
  also have "exp (1::real) ^ 7 = exp 7" using exp_of_nat_mult[of 7 "1::real"] by simp
  finally have "(128::real) \<le> exp 7" by simp
  then have "1 / exp (7::real) \<le> 1 / 128" by (intro divide_left_mono) simp_all
  then show ?thesis by (simp add: exp_minus inverse_eq_divide)
qed

lemma ten_gap: "k \<noteq> 0 \<Longrightarrow> ten_q 1 k \<le> ten_q 1 0 - 7"
proof -
  assume k: "k \<noteq> 0"
  have "ln ((5846 / 9) / 374 :: real) = ln (5846 / 9) - ln 374"
    using ln_div[of "5846 / 9 :: real" 374] by simp
  moreover have "ln ((5846 / 9) / 374 :: real) \<le> (5846 / 9) / 374 - 1"
    by (rule ln_le_minus_one) simp
  ultimately have "ln (5846 / 9 :: real) - ln 374 \<le> 3 / 4" by simp
  then show ?thesis using k by (simp add: ten_q_def)
qed

lemma exp_shift_sum_bound:
  fixes x0 d :: real
  assumes "\<forall>y \<in> set rest. y \<le> x0 - d" and "0 \<le> d"
  shows "sum_list (map (\<lambda>xi. exp (xi - Max (set (x0 # rest)))) (x0 # rest))
           \<le> 1 + real (length rest) * exp (- d)"
proof -
  have "Max (set (x0 # rest)) = x0"
    by (rule Max_eqI) (use assms in \<open>auto intro: order_trans[of _ "x0 - d"]\<close>)
  then have "sum_list (map (\<lambda>xi. exp (xi - Max (set (x0 # rest)))) (x0 # rest))
      = 1 + sum_list (map (\<lambda>xi. exp (xi - x0)) rest)" by simp
  also have "sum_list (map (\<lambda>xi. exp (xi - x0)) rest) \<le> sum_list (map (\<lambda>xi. exp (- d)) rest)"
    by (rule sum_list_mono) (use assms(1) in auto)
  also have "sum_list (map (\<lambda>xi. exp (- d)) rest) = real (length rest) * exp (- d)"
    by (simp add: sum_list_triv)
  finally show ?thesis by simp
qed

lemma softmax_const_bad:
  assumes "w \<noteq> Fin a" and "\<And>a. w \<noteq> Fin a" and "0 < n"
  shows "softmax (map (\<lambda>k. w) [0..<n]) = Inr (replicate n NaN)"
proof (cases "w = NInf")
  case True
  have m: "np_max (map (\<lambda>k. NInf) [0..<n]) = NInf"
  proof -
    have "foldl fmax NInf (replicate m NInf) = NInf" for m
      by (induction m) (simp_all add: fmax_def)
    moreover have "map (\<lambda>k. NInf) [0..<n] = replicate n NInf"
      by (simp add: map_replicate_const)
    moreover obtain n' where "n = Suc n'" using assms(3) by (cases n) auto
    ultimately show ?thesis by (simp add: np_max_def)
  qed
  have "sum_list (map (\<lambda>k. NaN) [0..<n]) = NaN"
    by (rule sum_list_NaN) (use assms(3) in auto)
  then show ?thesis
    unfolding softmax_def Let_def True m using assms(3)
    by (simp add: comp_def map_replicate_const)
next
  case False
  with assms(2) have "w = NaN \<or> w = PInf" by (cases w) auto
  then have "NaN \<in> set (map (\<lambda>k. w) [0..<n]) \<or> PInf \<in> set (map (\<lambda>k. w) [0..<n])"
    using assms(3) by auto
  from softmax_bad[OF this] show ?thesis by simp
qed

lemma ten_row_sum:
  assumes "softmax (map (\<lambda>k. w + Fin (ten_q 1 k)) [0..<10]) = Inr r1"
  shows "\<not> \<bar>sum_list r1 - 1\<bar> \<le> Fin (1 / 10 ^ 6)"
proof (cases w)
  case (Fin a)
  let ?xs = "map (\<lambda>k. a + ten_q 1 k) [0..<10]"
  let ?rest = "map (\<lambda>k. a + ten_q 1 k) [Suc 0..<10]"
  let ?S = "sum_list (map (\<lambda>xi. exp (xi - Max (set ?xs))) ?xs)"
  have sc: "map (\<lambda>k. w + Fin (ten_q 1 k)) [0..<10] = map Fin ?xs" by (simp add: Fin)
  have ne: "?xs \<noteq> []" by simp
  from softmax_Fin_props[OF ne] obtain ys where
    y: "softmax (map Fin ?xs) = Inr (map Fin ys)" and
    s: "sum_list ys = 1 + (real (length ?xs) - 1) * float32_eps / (?S + float32_eps)"
    by blast
  from assms y have r1: "r1 = map Fin ys" unfolding sc by simp
  have split: "?xs = (a + ten_q 1 0) # ?rest" by (simp add: upt_conv_Cons)
  have "\<forall>y \<in> set ?rest. y \<le> (a + ten_q 1 0) - 7"
    using ten_gap by auto
  from exp_shift_sum_bound[OF this] have "?S \<le> 1 + real (length ?rest) * exp (- 7)"
    unfolding split by simp
  also have "\<dots> \<le> 1 + 9 * (1 / 128)" using exp_seven by simp
  finally have S: "?S \<le> 137 / 128" by simp
  have S1: "1 \<le> ?S" by (rule exp_shift_sum_ge1[OF ne])
  have pos: "0 < ?S + float32_eps" using S1 float32_eps_pos by linarith
  have "9 * float32_eps / (137 / 128 + float32_eps) \<le> 9 * float32_eps / (?S + float32_eps)"
    using S pos float32_eps_pos by (intro divide_left_mono mult_pos_pos) auto
  moreover have "1 / 10 ^ 6 < 9 * float32_eps / (137 / 128 + float32_eps)"
    by (simp add: float32_eps_def field_simps)
  ultimately have "1 / 10 ^ 6 < sum_list ys - 1" using s by simp
  then have "\<not> \<bar>sum_list ys - 1\<bar> \<le> 1 / 10 ^ 6" by linarith
  then show ?thesis unfolding r1 by (simp add: sum_list_Fin)
next
  case PInf
  have "map (\<lambda>k. w + Fin (ten_q 1 k)) [0..<10] = map (\<lambda>k. w) [0..<10]" by (simp add: PInf)
  with assms softmax_const_bad[of w 0 10] PInf have "r1 = replicate 10 NaN" by simp
  moreover have "sum_list (replicate 10 NaN) = NaN" by (rule sum_list_NaN) simp
  ultimately show ?thesis by simp
next
  case NInf
  have "map (\<lambda>k. w + Fin (ten_q 1 k)) [0..<10] = map (\<lambda>k. w) [0..<10]" by (simp add: NInf)
  with assms softmax_const_bad[of w 0 10] NInf have "r1 = replicate 10 NaN" by simp
  moreover have "sum_list (replicate 10 NaN) = NaN" by (rule sum_list_NaN) simp
  ultimately show ?thesis by simp
next
  case NaN
  have "map (\<lambda>k. w + Fin (ten_q 1 k)) [0..<10] = map (\<lambda>k. w) [0..<10]" by (simp add: NaN)
  with assms softmax_const_bad[of w 0 10] NaN have "r1 = replicate 10 NaN" by simp
  moreover have "sum_list (replicate 10 NaN) = NaN" by (rule sum_list_NaN) simp
  ultimately show ?thesis by simp
qed

lemma ten_base_zero: "ten_base (\<lambda>x. Fin 0) = Fin 0"
  by (simp add: ten_base_def psi_sum_def upt2)

lemma ten_update:
  "\<exists>r0 r1. update_lambda_phi (\<lambda>x. 0) (st_phi (ten_st1 ten_draw)) (st_pi (ten_st1 ten_draw))
       (st_m (ten_st1 ten_draw)) (st_nu (ten_st1 ten_draw)) (st_W (ten_st1 ten_draw))
       (st_beta (ten_st1 ten_draw)) ten_xn 2 10 2 = Inr [r0, r1]"
  using ten_phi[of "\<lambda>x. 0"] by (auto simp: ten_st1_def ten_xn_def)

lemma ten_scores_finite:
  assumes "\<forall>k<10. phi_score (\<lambda>x. 0) 2 (st_pi (ten_st1 ten_draw))
       (st_m (ten_st1 ten_draw)) (st_nu (ten_st1 ten_draw)) (st_W (ten_st1 ten_draw))
       (st_beta (ten_st1 ten_draw)) (ten_xn ! 1) k = Inr (sc ! k)"
    and "length sc = 10"
  shows "set sc \<subseteq> range Fin"
proof
  fix s assume "s \<in> set sc"
  then obtain k where k: "k < 10" "s = sc ! k" using assms(2) by (auto simp: in_set_conv_nth)
  from ten_score[OF k(1), of 1 "\<lambda>x. 0"] assms(1) k(1)
  have "sc ! k = ten_base (\<lambda>x. 0) + Fin (ten_q 1 k)"
    by (simp add: ten_st1_def ten_xn_def)
  then show "s \<in> range Fin" using k(2) by (simp add: ten_base_zero)
qed

section \<open>Not-a-number in the responsibilities\<close>

lemma nan_call:
  "update_lambda_phi (\<lambda>x. 0) [[0]] [1] [[0, 0]] [1] [[[1, 0], [0, - 1]]] [1] [[0, 0]] 1 1 2
     = Inr [[NaN]]"
  by (simp add: update_lambda_phi_def phi_row_def phi_score_def dirichlet_expectation_def
      phi_mean_term_def phi_prec_term_def phi_beta_term_def phi_quad_term_def phi_psi_term_def
      phi_logdet_term_def psi_sum_def inv2 det2 getitem_def setitem_def dot_mv_def dot_vv_def
      dot_vm_def dot_mm_def scale1_def scale2_def outer_def ncols_def trace_def lessThan2 upt2
      softmax_def np_max_def)

lemma nan_sweep:
  "sweep psi 2 1 2 (main_priors 2) [[NaN, Fin 0]] [[[NaN, NaN], [NaN, Fin 0]]]
     \<lparr>st_pi = [Fin 0, Fin 0], st_beta = [Fin 0, Fin 0], st_nu = [Fin 0, Fin 0],
      st_m = [[Fin 0, Fin 0], [Fin 0, Fin 0]],
      st_W = [[[Fin 0, Fin 0], [Fin 0, Fin 0]], [[Fin 0, Fin 0], [Fin 0, Fin 0]]],
      st_phi = [[Fin (1 / 2), Fin (1 / 2)]]\<rparr>
   = Inr (\<lparr>st_pi = [Fin (3 / 2), Fin (3 / 2)], st_beta = [Fin (6 / 5), Fin (6 / 5)],
           st_nu = [Fin (7 / 2), Fin (7 / 2)],
           st_m = [[NaN, Fin 0], [NaN, Fin 0]],
           st_W = [[[NaN, NaN], [NaN, Fin 40]], [[NaN, NaN], [NaN, Fin 40]]],
           st_phi = [[NaN, NaN]]\<rparr>, [Fin (1 / 2), Fin (1 / 2)])"
  apply (simp add: sweep_def main_priors_def Let_def sum_axis0_def shape1_def update_lambda_pi_def
      update_lambda_beta_def update_lambda_nu_def column_def getitem_def setitem_def upt2)
  apply (simp add: update_lambda_m_def weighted_points_def update_lambda_W_def
      weighted_outers_def np_defs upt2)
  apply (simp add: update_lambda_phi_def phi_row_def phi_score_def dirichlet_expectation_def
      phi_mean_term_def phi_prec_term_def phi_beta_term_def phi_quad_term_def phi_psi_term_def
      phi_logdet_term_def np_defs lessThan2 upt2 softmax_def np_max_def numeral_2_eq_2
      lessThan_Suc fmax_def)
  done

lemma nan_elbo:
  "\<exists>lb. elbo psi gammaln mgl 2 [[NaN, NaN]] [Fin (3 / 2), Fin (3 / 2)]
      [[NaN, Fin 0], [NaN, Fin 0]] [[[NaN, NaN], [NaN, Fin 40]], [[NaN, NaN], [NaN, Fin 40]]]
      [Fin (6 / 5), Fin (6 / 5)] [Fin (7 / 2), Fin (7 / 2)]
      [Fin 1, Fin 1] (Fin 3) (Fin (7 / 10)) [Fin 0, Fin 0] [[Fin 20, Fin 30], [Fin 25, Fin 40]]
      [[NaN, Fin 0]] [[[NaN, NaN], [NaN, Fin 0]]] 1 2 [Fin (1 / 2), Fin (1 / 2)] = Inr lb"
  by (simp add: elbo_def elbo_init_def elbo_component_def multigammaln_def det0
      NIW_sufficient_statistics_def weighted_points_def weighted_outers_def
      dirichlet_expectation_def np_defs lessThan2 upt2 numeral_2_eq_2 lessThan_Suc)

lemma nan_run:
  "\<exists>r. main psi gammaln mgl kmeans (\<lambda>alpha N. Inr [[1 / 2, 1 / 2]])
          \<lparr>arg_maxIter = 1, arg_k = 2, arg_randomInit = True\<rparr> [[NaN, 0]] 2 = Inr r \<and>
       n_iters r = 1 \<and> st_phi (final r) = [[NaN, NaN]]"
proof -
  let ?st0 = "\<lparr>st_pi = [Fin 0, Fin 0], st_beta = [Fin 0, Fin 0], st_nu = [Fin 0, Fin 0],
      st_m = [[Fin 0, Fin 0], [Fin 0, Fin 0]],
      st_W = [[[Fin 0, Fin 0], [Fin 0, Fin 0]], [[Fin 0, Fin 0], [Fin 0, Fin 0]]],
      st_phi = [[Fin (1 / 2), Fin (1 / 2)]]\<rparr>"
  let ?st1 = "\<lparr>st_pi = [Fin (3 / 2), Fin (3 / 2)], st_beta = [Fin (6 / 5), Fin (6 / 5)],
           st_nu = [Fin (7 / 2), Fin (7 / 2)],
           st_m = [[NaN, Fin 0], [NaN, Fin 0]],
           st_W = [[[NaN, NaN], [NaN, Fin 40]], [[NaN, NaN], [NaN, Fin 40]]],
           st_phi = [[NaN, NaN]]\<rparr>"
  let ?step = "sweep_elbo psi gammaln mgl 2 (Suc 0) 2 (main_priors 2) [[NaN, Fin 0]]
      [[[NaN, NaN], [NaN, Fin 0]]]"
  have init: "initial_state kmeans (\<lambda>alpha N. Inr [[Fin (1 / 2), Fin (1 / 2)]])
      \<lparr>arg_maxIter = 1, arg_k = 2, arg_randomInit = True\<rparr> [[NaN, Fin 0]] 2 = Inr ?st0"
    by (simp add: initial_state_def np_zeros_def numeral_2_eq_2)
  obtain lb where lb: "elbo psi gammaln mgl 2 [[NaN, NaN]] [Fin (3 / 2), Fin (3 / 2)]
      [[NaN, Fin 0], [NaN, Fin 0]] [[[NaN, NaN], [NaN, Fin 40]], [[NaN, NaN], [NaN, Fin 40]]]
      [Fin (6 / 5), Fin (6 / 5)] [Fin (7 / 2), Fin (7 / 2)]
      [Fin 1, Fin 1] (Fin 3) (Fin (7 / 10)) [Fin 0, Fin 0] [[Fin 20, Fin 30], [Fin 25, Fin 40]]
      [[NaN, Fin 0]] [[[NaN, NaN], [NaN, Fin 0]]] 1 2 [Fin (1 / 2), Fin (1 / 2)] = Inr lb"
    using nan_elbo by blast
  have step: "?step ?st0 = Inr (?st1, lb)"
    unfolding sweep_elbo_def using nan_sweep[of psi] lb
    by (simp add: main_priors_def numeral_2_eq_2)
  have i1: "iterate ?step (Suc 0) (Suc 0) ?st1 [lb] (Suc 0) =
      Inr \<lparr>final = ?st1, lbs = [lb], n_iters = Suc 0, left_by = RangeExhausted\<rparr>"
    by (subst iterate.simps) simp
  have i0: "iterate ?step (Suc 0) 0 ?st0 [] 0 =
      Inr \<lparr>final = ?st1, lbs = [lb], n_iters = Suc 0, left_by = RangeExhausted\<rparr>"
    by (subst iterate.simps) (simp add: step break_condition_def i1)
  show ?thesis
    by (simp add: main_def init outer_def i0)
qed

section \<open>The claims\<close>

text \<open>
  C7. Running with \<^verbatim>\<open>maxIter = 0\<close>: the loop body is never entered, so no update and no
  evaluation of the bound takes place. The run returns the initial variational state
  unchanged, an empty trace of the bound, the iteration count 0, and leaves the loop because
  the range is exhausted (not through \<^verbatim>\<open>break\<close>). This holds whatever the special
  functions are, also when a sweep would raise.
\<close>

theorem main_zero_iterations:
  assumes "arg_maxIter cfg = 0"
    and "initial_state kmeans dirichlet cfg xn D = Inr st0"
  shows "main psi gammaln mgl kmeans dirichlet cfg xn D =
           Inr \<lparr>final = st0, lbs = [], n_iters = 0, left_by = RangeExhausted\<rparr>"
  using assms by (simp add: main_def iterate.simps[of _ 0])

theorem main_zero_iterations_witness:
  "arg_maxIter \<lparr>arg_maxIter = 0, arg_k = 2, arg_randomInit = False\<rparr> = 0 \<and>
   main (\<lambda>x. 0) (\<lambda>x. 0) (\<lambda>a d. 0) (\<lambda>K xn. Inr [0, 1]) (\<lambda>alpha N. Inl ValueError)
     \<lparr>arg_maxIter = 0, arg_k = 2, arg_randomInit = False\<rparr> [[0, 0], [4, 4]] 2 =
     Inr \<lparr>final = \<lparr>st_pi = [0, 0], st_beta = [0, 0], st_nu = [0, 0],
                     st_m = [[0, 0], [0, 0]],
                     st_W = [[[0, 0], [0, 0]], [[0, 0], [0, 0]]],
                     st_phi = [[9 / 10, 1 / 10], [1 / 10, 9 / 10]]\<rparr>,
          lbs = [], n_iters = 0, left_by = RangeExhausted\<rparr>"
proof -
  have init: "initial_state (\<lambda>K xn. Inr [0, 1]) (\<lambda>alpha N. Inl ValueError)
      \<lparr>arg_maxIter = 0, arg_k = 2, arg_randomInit = False\<rparr> [[0, 0], [4, 4]] 2 =
      Inr \<lparr>st_pi = [0, 0], st_beta = [0, 0], st_nu = [0, 0],
                     st_m = [[0, 0], [0, 0]],
                     st_W = [[[0, 0], [0, 0]], [[0, 0], [0, 0]]],
                     st_phi = [[9 / 10, 1 / 10], [1 / 10, 9 / 10]]\<rparr>"
    by (simp add: initial_state_def init_kmeans_def np_zeros_def getitem_def setitem_def
        numeral_2_eq_2)
  show ?thesis
    using main_zero_iterations[OF _ init, of "\<lambda>x. 0" "\<lambda>x. 0" "\<lambda>a d. 0"] by simp
qed



text \<open>
  C8 (as the program behaves). There is no check of the number of components: the parser
  accepts every integer, and what happens for \<open>K < 2\<close> depends on the initialisation.
  A negative \<open>K\<close> ends the run with an exception before the first sweep under either
  initialisation (a \<open>ValueError\<close> of the allocation under the k-means one). \<open>K = 1\<close> with
  the k-means initialisation ends in \<^verbatim>\<open>init_kmeans\<close> with a \<open>ZeroDivisionError\<close>.
  \<open>K = 0\<close> with the k-means initialisation ends with the exception of the clustering, or
  with an \<open>IndexError\<close> at the first label. With random initialisation \<open>K = 0\<close> and
  \<open>K = 1\<close> pass the initialisation whenever the draw returns; for \<open>K = 0\<close> the first sweep
  on a non-empty dataset then raises a \<open>ValueError\<close> (the maximum of an empty row, in
  \<^verbatim>\<open>softmax\<close>), and for \<open>K = 1\<close> the sweeps are run: the run on one point below performs
  two of them and ends through \<^verbatim>\<open>break\<close>.
\<close>

theorem k_one_random_init_runs:
  "\<not> isl (main (\<lambda>x. 0) (\<lambda>x. 0) (\<lambda>a d. 0) (\<lambda>K xn. Inl ValueError) (\<lambda>alpha N. Inr [[1]])
          \<lparr>arg_maxIter = 100, arg_k = 1, arg_randomInit = True\<rparr> [[0, 0]] 2)"
proof -
  obtain v where "main (\<lambda>x. 0) (\<lambda>x. 0) (\<lambda>a d. 0) (\<lambda>K xn. Inl ValueError)
       (\<lambda>alpha N. Inr [[1]])
       \<lparr>arg_maxIter = 100, arg_k = 1, arg_randomInit = True\<rparr> [[0, 0]] 2 =
       Inr \<lparr>final = one_point_st1, lbs = [Fin v, Fin v], n_iters = 2, left_by = Break\<rparr>"
    using run1 by blast
  then show ?thesis by simp
qed

theorem small_k_outcomes:
  "(arg_k cfg < 0 \<longrightarrow> isl (main psi gammaln mgl kmeans dirichlet cfg xn D)) \<and>
   (arg_k cfg < 0 \<and> \<not> arg_randomInit cfg \<longrightarrow>
      main psi gammaln mgl kmeans dirichlet cfg xn D = Inl ValueError) \<and>
   (arg_k cfg = 1 \<and> \<not> arg_randomInit cfg \<longrightarrow>
      main psi gammaln mgl kmeans dirichlet cfg xn D = Inl ZeroDivisionError) \<and>
   (arg_k cfg = 0 \<and> \<not> arg_randomInit cfg \<and> kmeans 0 xn = Inl e \<longrightarrow>
      main psi gammaln mgl kmeans dirichlet cfg xn D = Inl e) \<and>
   (arg_k cfg = 0 \<and> \<not> arg_randomInit cfg \<and> kmeans 0 xn = Inr labels \<and> labels \<noteq> [] \<longrightarrow>
      main psi gammaln mgl kmeans dirichlet cfg xn D = Inl IndexError) \<and>
   ((arg_k cfg = 0 \<or> arg_k cfg = 1) \<and> arg_randomInit cfg \<and>
    dirichlet (replicate (nat (arg_k cfg)) 1) (length xn) = Inr phi \<longrightarrow>
      initial_state kmeans dirichlet cfg xn D =
        Inr \<lparr>st_pi = replicate (nat (arg_k cfg)) 0, st_beta = replicate (nat (arg_k cfg)) 0,
             st_nu = replicate (nat (arg_k cfg)) 0,
             st_m = replicate (nat (arg_k cfg)) (replicate D 0),
             st_W = replicate (nat (arg_k cfg)) (replicate D (replicate D 0)),
             st_phi = phi\<rparr>) \<and>
   (arg_k cfg = 0 \<and> arg_randomInit cfg \<and> dirichlet [] (length xn) = Inr phi \<and>
    xn \<noteq> [] \<and> phi \<noteq> [] \<and> phi ! 0 = [] \<and> 0 < arg_maxIter cfg \<longrightarrow>
      main psi gammaln mgl kmeans dirichlet cfg xn D = Inl ValueError)"
proof (intro conjI impI)
  assume neg: "arg_k cfg < 0"
  show "isl (main psi gammaln mgl kmeans dirichlet cfg xn D)"
  proof (cases "if arg_randomInit cfg
                then dirichlet (pr_alpha (main_priors (arg_k cfg))) (length xn)
                else init_kmeans kmeans xn (length xn) (arg_k cfg)")
    case (Inl e)
    then show ?thesis by (simp add: main_def initial_state_def)
  next
    case (Inr lphi)
    then show ?thesis using neg by (simp add: main_def initial_state_def np_zeros_def)
  qed
next
  assume "arg_k cfg < 0 \<and> \<not> arg_randomInit cfg"
  then show "main psi gammaln mgl kmeans dirichlet cfg xn D = Inl ValueError"
    by (simp add: main_def initial_state_def init_kmeans_def)
next
  assume "arg_k cfg = 1 \<and> \<not> arg_randomInit cfg"
  then show "main psi gammaln mgl kmeans dirichlet cfg xn D = Inl ZeroDivisionError"
    by (simp add: main_def initial_state_def init_kmeans_def)
next
  assume "arg_k cfg = 0 \<and> \<not> arg_randomInit cfg \<and> kmeans 0 xn = Inl e"
  then show "main psi gammaln mgl kmeans dirichlet cfg xn D = Inl e"
    by (simp add: main_def initial_state_def init_kmeans_def)
next
  assume h: "arg_k cfg = 0 \<and> \<not> arg_randomInit cfg \<and> kmeans 0 xn = Inr labels \<and> labels \<noteq> []"
  then obtain l ls where l: "labels = l # ls" by (cases labels) auto
  have "init_kmeans kmeans xn (length xn) 0 = Inl IndexError"
    using h unfolding l by (cases xn) (simp_all add: init_kmeans_def getitem_def setitem_def)
  then show "main psi gammaln mgl kmeans dirichlet cfg xn D = Inl IndexError"
    using h by (simp add: main_def initial_state_def)
next
  assume "(arg_k cfg = 0 \<or> arg_k cfg = 1) \<and> arg_randomInit cfg \<and>
    dirichlet (replicate (nat (arg_k cfg)) 1) (length xn) = Inr phi"
  then show "initial_state kmeans dirichlet cfg xn D =
        Inr \<lparr>st_pi = replicate (nat (arg_k cfg)) 0, st_beta = replicate (nat (arg_k cfg)) 0,
             st_nu = replicate (nat (arg_k cfg)) 0,
             st_m = replicate (nat (arg_k cfg)) (replicate D 0),
             st_W = replicate (nat (arg_k cfg)) (replicate D (replicate D 0)),
             st_phi = phi\<rparr>"
    by (auto simp: initial_state_def main_priors_def np_zeros_def)
next
  assume h: "arg_k cfg = 0 \<and> arg_randomInit cfg \<and> dirichlet [] (length xn) = Inr phi \<and>
    xn \<noteq> [] \<and> phi \<noteq> [] \<and> phi ! 0 = [] \<and> 0 < arg_maxIter cfg"
  let ?st = "\<lparr>st_pi = [], st_beta = [], st_nu = [], st_m = [], st_W = [], st_phi = phi\<rparr>"
  have init: "initial_state kmeans dirichlet cfg xn D = Inr ?st"
    using h by (simp add: initial_state_def main_priors_def np_zeros_def)
  have sw: "sweep psi 0 (length xn) D (main_priors 0) xn (map (\<lambda>x. outer x x) xn) ?st
              = Inl ValueError"
    using h by (intro sweep_no_components) simp_all
  have lt: "0 < nat (arg_maxIter cfg)" using h by simp
  show "main psi gammaln mgl kmeans dirichlet cfg xn D = Inl ValueError"
    using h lt by (simp add: main_def init iterate.simps[of _ _ 0] sweep_elbo_def sw)
qed

theorem small_k_outcomes_witness:
  "main (\<lambda>x. 0) (\<lambda>x. 0) (\<lambda>a d. 0) (\<lambda>K xn. Inr [0]) (\<lambda>alpha N. Inr [[1]])
      \<lparr>arg_maxIter = 100, arg_k = 1, arg_randomInit = False\<rparr> [[0, 0]] 2
     = Inl ZeroDivisionError \<and>
   main (\<lambda>x. 0) (\<lambda>x. 0) (\<lambda>a d. 0) (\<lambda>K xn. Inr [0]) (\<lambda>alpha N. Inr [[1]])
      \<lparr>arg_maxIter = 100, arg_k = - 1, arg_randomInit = False\<rparr> [[0, 0]] 2
     = Inl ValueError \<and>
   main (\<lambda>x. 0) (\<lambda>x. 0) (\<lambda>a d. 0) (\<lambda>K xn. Inr [0]) (\<lambda>alpha N. Inr [[1]])
      \<lparr>arg_maxIter = 100, arg_k = 0, arg_randomInit = False\<rparr> [[0, 0]] 2
     = Inl IndexError \<and>
   main (\<lambda>x. 0) (\<lambda>x. 0) (\<lambda>a d. 0) (\<lambda>K xn. Inr [0]) (\<lambda>alpha N. Inr (replicate N []))
      \<lparr>arg_maxIter = 100, arg_k = 0, arg_randomInit = True\<rparr> [[0, 0]] 2
     = Inl ValueError \<and>
   initial_state (\<lambda>K xn. Inr [0]) (\<lambda>alpha N. Inr [[1]])
      \<lparr>arg_maxIter = 100, arg_k = 1, arg_randomInit = True\<rparr> [[0, 0]] 2
     = Inr one_point_st0"
  using small_k_outcomes[of "\<lparr>arg_maxIter = 100, arg_k = 1, arg_randomInit = False\<rparr>"
      "\<lambda>x. 0" "\<lambda>x. 0" "\<lambda>a d. 0" "\<lambda>K xn. Inr [0]" "\<lambda>alpha N. Inr [[1]]" "[[0, 0]]" 2]
    small_k_outcomes[of "\<lparr>arg_maxIter = 100, arg_k = - 1, arg_randomInit = False\<rparr>"
      "\<lambda>x. 0" "\<lambda>x. 0" "\<lambda>a d. 0" "\<lambda>K xn. Inr [0]" "\<lambda>alpha N. Inr [[1]]" "[[0, 0]]" 2]
    small_k_outcomes[of "\<lparr>arg_maxIter = 100, arg_k = 0, arg_randomInit = False\<rparr>"
      "\<lambda>x. 0" "\<lambda>x. 0" "\<lambda>a d. 0" "\<lambda>K xn. Inr [0]" "\<lambda>alpha N. Inr [[1]]" "[[0, 0]]" 2
      _ "[0]"]
    small_k_outcomes[of "\<lparr>arg_maxIter = 100, arg_k = 0, arg_randomInit = True\<rparr>"
      "\<lambda>x. 0" "\<lambda>x. 0" "\<lambda>a d. 0" "\<lambda>K xn. Inr [0]" "\<lambda>alpha N. Inr (replicate N [])" "[[0, 0]]" 2
      _ _ "[[]]"]
    small_k_outcomes[of "\<lparr>arg_maxIter = 100, arg_k = 1, arg_randomInit = True\<rparr>"
      "\<lambda>x. 0" "\<lambda>x. 0" "\<lambda>a d. 0" "\<lambda>K xn. Inr [0]" "\<lambda>alpha N. Inr [[1]]" "[[0, 0]]" 2
      _ _ "[[1]]"]
  by (simp add: one_point_st0_def numeral_2_eq_2)







end
